theory Spec2Isabelle
  imports Main "HOL-Library.Word"
begin

section \<open>The debug printing helpers of \<^verbatim>\<open>cpp/core/utils/Print.h\<close>\<close>

text \<open>
  The header writes to \<^verbatim>\<open>std::cout\<close>. The stream is modelled by its content, the
  characters written so far; every helper takes the content before the call and returns
  the content after it. \<^verbatim>\<open>std::endl\<close> writes one line feed and flushes; flushing does
  not change the content. The stream is taken in its default formatting state (decimal,
  no field width) and in a good state. What a call leaves behind in the formatting state
  for the next call is the subject of a later part, where the stream carries that state.

  Every helper is a template. \<^verbatim>\<open>std::cout << t\<close> for a value of a template type is a
  parameter of the model: the function that gives the characters \<^verbatim>\<open>operator<<\<close>
  writes for that type. The member functions \<^verbatim>\<open>ToString()\<close> and \<^verbatim>\<open>toString()\<close> are
  parameters in the same way.
\<close>

type_synonym sink = string

abbreviation LF :: char where
  "LF \<equiv> CHR 0x0A"

abbreviation TAB :: char where
  "TAB \<equiv> CHR 0x09"

abbreviation endl :: string where
  "endl \<equiv> [LF]"

text \<open>\<^verbatim>\<open>operator<<\<close> for a string (\<^verbatim>\<open>const char*\<close>, \<^verbatim>\<open>std::string\<close>) writes its characters.\<close>

definition ins_string :: "string \<Rightarrow> string" where
  "ins_string s = s"

text \<open>
  \<^verbatim>\<open>operator<<\<close> of the standard library for the unsigned types (\<^verbatim>\<open>size_t\<close>,
  \<^verbatim>\<open>unsigned int\<close>) and for \<^verbatim>\<open>int\<close>, in the default decimal format.
\<close>

definition digit :: "nat \<Rightarrow> char" where
  "digit n = ''0123456789'' ! n"

function dec_nat :: "nat \<Rightarrow> string" where
  "dec_nat n = (if n < 10 then [digit n] else dec_nat (n div 10) @ [digit (n mod 10)])"
  by pat_completeness auto
termination
  by (relation "measure id") auto

declare dec_nat.simps [simp del]

definition dec_int :: "int \<Rightarrow> string" where
  "dec_int i = (if i < 0 then CHR ''-'' # dec_nat (nat (- i)) else dec_nat (nat i))"

subsection \<open>Undefined behaviour as a value\<close>

text \<open>
  A cursor over a container \<open>c\<close> is the position it points at: \<open>c.begin()\<close> is \<open>0\<close> and
  \<open>c.end()\<close> is \<open>length c\<close>. Reading through the past-the-end cursor, advancing it, indexing
  a vector out of range and calling a member through an empty owning handle are undefined
  behaviour in C++; the model returns a \<open>fault\<close> there instead of a sink.
\<close>

datatype fault =
  Deref_Past_End nat
  | Increment_Past_End nat
  | Index_Out_Of_Range nat
  | Null_Handle

type_synonym outcome = "fault + sink"

text \<open>One call after another: the second runs on the sink the first returned.\<close>

definition and_then :: "outcome \<Rightarrow> (sink \<Rightarrow> outcome) \<Rightarrow> outcome" where
  "and_then r f = (case r of Inl x \<Rightarrow> Inl x | Inr out \<Rightarrow> f out)"

text \<open>The outcome \<open>r\<close>, computed from the empty sink, placed after the content \<open>s\<close>.\<close>

definition onto :: "sink \<Rightarrow> outcome \<Rightarrow> outcome" where
  "onto s r = (case r of Inl x \<Rightarrow> Inl x | Inr w \<Rightarrow> Inr (s @ w))"

subsection \<open>Enabled mode: \<^verbatim>\<open>GLUTEN_PRINT_DEBUG\<close> defined\<close>

definition Print :: "('t \<Rightarrow> string) \<Rightarrow> 't \<Rightarrow> sink \<Rightarrow> sink" where
  "Print ins t out = out @ ins t"

definition PrintLF :: "('t \<Rightarrow> string) \<Rightarrow> 't \<Rightarrow> sink \<Rightarrow> sink" where
  "PrintLF ins t out = out @ ins t @ endl"

text \<open>
  The header overloads \<open>Print\<close> and \<open>PrintLF\<close> for one and for two arguments; the
  two-argument overloads are \<open>Print2\<close> and \<open>PrintLF2\<close> here.
\<close>

definition Print2 :: "('a \<Rightarrow> string) \<Rightarrow> ('b \<Rightarrow> string) \<Rightarrow> 'a \<Rightarrow> 'b \<Rightarrow> sink \<Rightarrow> sink" where
  "Print2 insA insB a b out = out @ insA a @ insB b"

definition PrintLF2 :: "('a \<Rightarrow> string) \<Rightarrow> ('b \<Rightarrow> string) \<Rightarrow> 'a \<Rightarrow> 'b \<Rightarrow> sink \<Rightarrow> sink" where
  "PrintLF2 insA insB a b out = out @ insA a @ insB b @ endl"

text \<open>The default argument \<^verbatim>\<open>split = ": "\<close>.\<close>

definition default_split :: string where
  "default_split = '': ''"

definition PrintSplit ::
  "('a \<Rightarrow> string) \<Rightarrow> ('b \<Rightarrow> string) \<Rightarrow> 'a \<Rightarrow> 'b \<Rightarrow> string \<Rightarrow> sink \<Rightarrow> sink" where
  "PrintSplit insA insB a b split out = out @ insA a @ split @ insB b"

definition PrintSplitLF ::
  "('a \<Rightarrow> string) \<Rightarrow> ('b \<Rightarrow> string) \<Rightarrow> 'a \<Rightarrow> 'b \<Rightarrow> string \<Rightarrow> sink \<Rightarrow> sink" where
  "PrintSplitLF insA insB a b split out = out @ insA a @ split @ insB b @ endl"

definition PrintEQ :: "('a \<Rightarrow> string) \<Rightarrow> ('b \<Rightarrow> string) \<Rightarrow> 'a \<Rightarrow> 'b \<Rightarrow> sink \<Rightarrow> sink" where
  "PrintEQ insA insB a b out = out @ insA a @ '' = '' @ insB b"

definition PrintEQLF :: "('a \<Rightarrow> string) \<Rightarrow> ('b \<Rightarrow> string) \<Rightarrow> 'a \<Rightarrow> 'b \<Rightarrow> sink \<Rightarrow> sink" where
  "PrintEQLF insA insB a b out = out @ insA a @ '' = '' @ insB b @ endl"

definition PrintVS :: "('a \<Rightarrow> string) \<Rightarrow> ('b \<Rightarrow> string) \<Rightarrow> 'a \<Rightarrow> 'b \<Rightarrow> sink \<Rightarrow> sink" where
  "PrintVS insA insB a b out = out @ insA a @ '' vs '' @ insB b"

definition PrintVSLF :: "('a \<Rightarrow> string) \<Rightarrow> ('b \<Rightarrow> string) \<Rightarrow> 'a \<Rightarrow> 'b \<Rightarrow> sink \<Rightarrow> sink" where
  "PrintVSLF insA insB a b out = out @ insA a @ '' vs '' @ insB b @ endl"

definition PrintElement :: "('e \<Rightarrow> string) \<Rightarrow> 'e \<Rightarrow> bool \<Rightarrow> sink \<Rightarrow> sink" where
  "PrintElement ins e first out =
     (let out1 = (if \<not> first then out @ '', '' else out)
      in out1 @ ins e)"

text \<open>
  \<open>PrintRange\<close>: the loop \<^verbatim>\<open>for (; begin != end; ++begin)\<close> over cursors of the
  container \<open>c\<close>. The body reads through the cursor and the loop header advances it.
\<close>

function PrintRange_loop :: "('e \<Rightarrow> string) \<Rightarrow> 'e list \<Rightarrow> nat \<Rightarrow> nat \<Rightarrow> sink \<Rightarrow> outcome" where
  "PrintRange_loop ins c bgn en out =
     (if bgn \<noteq> en then
        (if bgn < length c then
           PrintRange_loop ins c (Suc bgn) en (out @ ins (c ! bgn) @ '' '')
         else Inl (Deref_Past_End bgn))
      else Inr out)"
  by pat_completeness auto
termination
  by (relation "measure (\<lambda>(ins, c, bgn, en, out). length c - bgn)") auto

declare PrintRange_loop.simps [simp del]

definition PrintRange :: "('e \<Rightarrow> string) \<Rightarrow> 'e list \<Rightarrow> nat \<Rightarrow> nat \<Rightarrow> sink \<Rightarrow> outcome" where
  "PrintRange ins c bgn en out =
     and_then (PrintRange_loop ins c bgn en (out @ ''{ '')) (\<lambda>out1. Inr (out1 @ ''}'' @ endl))"

definition PrintContainer :: "('e \<Rightarrow> string) \<Rightarrow> 'e list \<Rightarrow> string \<Rightarrow> sink \<Rightarrow> outcome" where
  "PrintContainer ins c containerName out =
     (let out1 = (if containerName \<noteq> [] then out @ containerName @ '' '' else out);
          out2 = out1 @ ''size = '' @ dec_nat (length c) @ '' ''
      in PrintRange ins c 0 (length c) out2)"

definition PrintAB2String ::
  "('a \<Rightarrow> string) \<Rightarrow> ('b \<Rightarrow> string) \<Rightarrow> 'a \<Rightarrow> 'b \<Rightarrow> sink \<Rightarrow> sink" where
  "PrintAB2String insA toString a b out = out @ insA a @ '' = '' @ toString b @ endl"

definition Print2String :: "('t \<Rightarrow> string) \<Rightarrow> 't \<Rightarrow> string \<Rightarrow> sink \<Rightarrow> sink" where
  "Print2String toString t prefix out =
     (let out1 = (if prefix \<noteq> [] then out @ prefix @ '': '' else out)
      in out1 @ toString t @ endl)"

text \<open>
  \<open>PrintRangeToString\<close> and \<open>PrintRange2String\<close>: the body advances the cursor
  (\<^verbatim>\<open>++begin;\<close>) after writing the element, and the loop header advances it again.
  The first advance starts from a cursor that was just read through, so it is defined;
  the second is undefined when the first reached the end of the container.
\<close>

function PrintRangeToString_loop ::
  "('e \<Rightarrow> string) \<Rightarrow> 'e list \<Rightarrow> nat \<Rightarrow> nat \<Rightarrow> sink \<Rightarrow> outcome" where
  "PrintRangeToString_loop ToString c bgn en out =
     (if bgn \<noteq> en then
        (if bgn < length c then
           (let out1 = out @ ToString (c ! bgn) @ '' '';
                bgn1 = Suc bgn
            in if bgn1 < length c then PrintRangeToString_loop ToString c (Suc bgn1) en out1
               else Inl (Increment_Past_End bgn1))
         else Inl (Deref_Past_End bgn))
      else Inr out)"
  by pat_completeness auto
termination
  by (relation "measure (\<lambda>(ToString, c, bgn, en, out). length c - bgn)") auto

declare PrintRangeToString_loop.simps [simp del]

definition PrintRangeToString ::
  "('e \<Rightarrow> string) \<Rightarrow> 'e list \<Rightarrow> nat \<Rightarrow> nat \<Rightarrow> sink \<Rightarrow> outcome" where
  "PrintRangeToString ToString c bgn en out =
     and_then (PrintRangeToString_loop ToString c bgn en (out @ ''{ ''))
       (\<lambda>out1. Inr (out1 @ ''}''))"

function PrintRange2String_loop ::
  "('e \<Rightarrow> string) \<Rightarrow> 'e list \<Rightarrow> nat \<Rightarrow> nat \<Rightarrow> sink \<Rightarrow> outcome" where
  "PrintRange2String_loop toString c bgn en out =
     (if bgn \<noteq> en then
        (if bgn < length c then
           (let out1 = out @ toString (c ! bgn) @ '' '';
                bgn1 = Suc bgn
            in if bgn1 < length c then PrintRange2String_loop toString c (Suc bgn1) en out1
               else Inl (Increment_Past_End bgn1))
         else Inl (Deref_Past_End bgn))
      else Inr out)"
  by pat_completeness auto
termination
  by (relation "measure (\<lambda>(toString, c, bgn, en, out). length c - bgn)") auto

declare PrintRange2String_loop.simps [simp del]

definition PrintRange2String ::
  "('e \<Rightarrow> string) \<Rightarrow> 'e list \<Rightarrow> nat \<Rightarrow> nat \<Rightarrow> sink \<Rightarrow> outcome" where
  "PrintRange2String toString c bgn en out =
     and_then (PrintRange2String_loop toString c bgn en (out @ ''{ ''))
       (\<lambda>out1. Inr (out1 @ ''}''))"

definition PrintContainerToString ::
  "('e \<Rightarrow> string) \<Rightarrow> 'e list \<Rightarrow> string \<Rightarrow> sink \<Rightarrow> outcome" where
  "PrintContainerToString ToString c containerName out =
     (let out1 = (if containerName \<noteq> [] then out @ containerName @ '' '' else out);
          out2 = out1 @ ''size = '' @ dec_nat (length c) @ endl
      in PrintRangeToString ToString c 0 (length c) out2)"

definition PrintContainer2String ::
  "('e \<Rightarrow> string) \<Rightarrow> 'e list \<Rightarrow> string \<Rightarrow> sink \<Rightarrow> outcome" where
  "PrintContainer2String toString c containerName out =
     (let out1 = (if containerName \<noteq> [] then out @ containerName @ '' '' else out);
          out2 = out1 @ ''size = '' @ dec_nat (length c) @ endl
      in PrintRange2String toString c 0 (length c) out2)"

text \<open>
  \<open>PrintVectorToString\<close> and \<open>PrintVector2String\<close>: a range-based \<^verbatim>\<open>for\<close> over a
  container of owning handles; \<^verbatim>\<open>x->ToString()\<close> reads through the handle, which may be
  empty (\<open>None\<close>).
\<close>

fun PrintVectorToString_loop :: "('o \<Rightarrow> string) \<Rightarrow> 'o option list \<Rightarrow> sink \<Rightarrow> outcome" where
  "PrintVectorToString_loop ToString [] out = Inr out"
| "PrintVectorToString_loop ToString (x # xs) out =
     (case x of
        None \<Rightarrow> Inl Null_Handle
      | Some obj \<Rightarrow> PrintVectorToString_loop ToString xs (out @ '' '' @ ToString obj))"

definition PrintVectorToString ::
  "('o \<Rightarrow> string) \<Rightarrow> 'o option list \<Rightarrow> string \<Rightarrow> sink \<Rightarrow> outcome" where
  "PrintVectorToString ToString c containerName out =
     and_then (PrintVectorToString_loop ToString c (out @ containerName @ '' = {''))
       (\<lambda>out1. Inr (out1 @ '' }'' @ endl))"

fun PrintVector2String_loop :: "('o \<Rightarrow> string) \<Rightarrow> 'o option list \<Rightarrow> sink \<Rightarrow> outcome" where
  "PrintVector2String_loop toString [] out = Inr out"
| "PrintVector2String_loop toString (x # xs) out =
     (case x of
        None \<Rightarrow> Inl Null_Handle
      | Some obj \<Rightarrow> PrintVector2String_loop toString xs (out @ '' '' @ toString obj))"

definition PrintVector2String ::
  "('o \<Rightarrow> string) \<Rightarrow> 'o option list \<Rightarrow> string \<Rightarrow> sink \<Rightarrow> outcome" where
  "PrintVector2String toString c containerName out =
     and_then (PrintVector2String_loop toString c (out @ containerName @ '' = {''))
       (\<lambda>out1. Inr (out1 @ '' }'' @ endl))"

text \<open>
  \<open>PrintVectorMapping\<close>: \<^verbatim>\<open>for (size_t i = 0; i < v.size(); ++i)\<close>; the index stays
  below the size, so \<^verbatim>\<open>v[i]\<close> is always in range.
\<close>

function PrintVectorMapping_loop :: "('e \<Rightarrow> string) \<Rightarrow> 'e list \<Rightarrow> nat \<Rightarrow> sink \<Rightarrow> sink" where
  "PrintVectorMapping_loop ins v i out =
     (if i < length v then
        PrintVectorMapping_loop ins v (Suc i)
          (PrintSplitLF dec_nat ins i (v ! i) '' -> '' (Print ins_string [TAB] out))
      else out)"
  by pat_completeness auto
termination
  by (relation "measure (\<lambda>(ins, v, i, out). length v - i)") auto

declare PrintVectorMapping_loop.simps [simp del]

definition PrintVectorMapping :: "('e \<Rightarrow> string) \<Rightarrow> 'e list \<Rightarrow> string \<Rightarrow> sink \<Rightarrow> sink" where
  "PrintVectorMapping ins v vectorName out =
     PrintVectorMapping_loop ins v 0 (out @ vectorName @ [LF] @ ''{'' @ [LF]) @ ''}'' @ endl"

text \<open>
  \<open>PrintVectorRange\<close>: the indices are \<^verbatim>\<open>unsigned int\<close>, 32 bits wide; \<^verbatim>\<open>++index\<close>
  wraps around. \<^verbatim>\<open>v[index]\<close> is not checked by the code and is undefined out of range.
\<close>

function PrintVectorRange_loop ::
  "('e \<Rightarrow> string) \<Rightarrow> 'e list \<Rightarrow> 32 word \<Rightarrow> 32 word \<Rightarrow> 32 word \<Rightarrow> sink \<Rightarrow> outcome" where
  "PrintVectorRange_loop ins v bgn index en out =
     (if index \<noteq> en then
        (if unat index < length v then
           PrintVectorRange_loop ins v bgn (index + 1) en
             (PrintElement ins (v ! unat index) (index = bgn) out)
         else Inl (Index_Out_Of_Range (unat index)))
      else Inr out)"
  by pat_completeness auto
termination
proof (relation "measure (\<lambda>(ins, v, bgn, index, en, out). unat (en - index))")
  show "wf (measure (\<lambda>(ins, v, bgn, index, en, out). unat (en - index)))"
    by simp
next
  fix ins :: "'e \<Rightarrow> string" and v :: "'e list" and bgn index en :: "32 word" and out :: sink
  assume ne: "index \<noteq> en"
  then have nz: "en - index \<noteq> 0"
    by simp
  have pred: "unat (x - 1) < unat x" if "x \<noteq> 0" for x :: "32 word"
    using that by (simp add: unat_minus_one unat_gt_0)
  have eq: "en - (index + 1) = (en - index) - 1"
    by simp
  have "unat (en - (index + 1)) < unat (en - index)"
    unfolding eq by (rule pred [OF nz])
  then show "((ins, v, bgn, index + 1, en, PrintElement ins (v ! unat index) (index = bgn) out),
              (ins, v, bgn, index, en, out))
             \<in> measure (\<lambda>(ins, v, bgn, index, en, out). unat (en - index))"
    by simp
qed

declare PrintVectorRange_loop.simps [simp del]

definition PrintVectorRange ::
  "('e \<Rightarrow> string) \<Rightarrow> 'e list \<Rightarrow> 32 word \<Rightarrow> 32 word \<Rightarrow> sink \<Rightarrow> outcome" where
  "PrintVectorRange ins v bgn en out =
     and_then (PrintVectorRange_loop ins v bgn bgn en (out @ ''{''))
       (\<lambda>out1. Inr (out1 @ ''}'' @ endl))"

subsection \<open>The macros of enabled mode\<close>

text \<open>
  \<^verbatim>\<open>#a\<close> is the text of the macro argument and \<^verbatim>\<open>__func__\<close> the name of the enclosing
  function; both are fixed at the call site and are parameters here (\<open>text\<close>, \<open>func\<close>).
\<close>

definition PRINT :: "('a \<Rightarrow> string) \<Rightarrow> string \<Rightarrow> 'a \<Rightarrow> sink \<Rightarrow> sink" where
  "PRINT ins text a out = PrintSplit ins_string ins text a default_split out"

definition PRINTLF :: "('a \<Rightarrow> string) \<Rightarrow> string \<Rightarrow> 'a \<Rightarrow> sink \<Rightarrow> sink" where
  "PRINTLF ins text a out = PrintSplitLF ins_string ins text a default_split out"

definition PRINT_FUNCTION_NAME :: "string \<Rightarrow> sink \<Rightarrow> sink" where
  "PRINT_FUNCTION_NAME func out = out @ func @ endl"

definition PRINT_FUNCTION_SPLIT_LINE :: "string \<Rightarrow> sink \<Rightarrow> sink" where
  "PRINT_FUNCTION_SPLIT_LINE func out = out @ ''===== '' @ func @ '' ======'' @ endl"







subsection \<open>Disabled mode: \<^verbatim>\<open>GLUTEN_PRINT_DEBUG\<close> not defined\<close>

text \<open>
  The \<^verbatim>\<open>#else\<close> branch declares the helpers again with empty bodies. Each stub below has
  the type of the enabled helper of the same name; a stub returns at once, so the ones
  whose enabled form can meet undefined behaviour return \<open>Inr\<close> of the unchanged sink.
\<close>

definition Print_stub :: "('t \<Rightarrow> string) \<Rightarrow> 't \<Rightarrow> sink \<Rightarrow> sink" where
  "Print_stub ins t out = out"

definition PrintLF_stub :: "('t \<Rightarrow> string) \<Rightarrow> 't \<Rightarrow> sink \<Rightarrow> sink" where
  "PrintLF_stub ins t out = out"

definition Print2_stub :: "('a \<Rightarrow> string) \<Rightarrow> ('b \<Rightarrow> string) \<Rightarrow> 'a \<Rightarrow> 'b \<Rightarrow> sink \<Rightarrow> sink" where
  "Print2_stub insA insB a b out = out"

definition PrintLF2_stub :: "('a \<Rightarrow> string) \<Rightarrow> ('b \<Rightarrow> string) \<Rightarrow> 'a \<Rightarrow> 'b \<Rightarrow> sink \<Rightarrow> sink" where
  "PrintLF2_stub insA insB a b out = out"

definition PrintSplit_stub ::
  "('a \<Rightarrow> string) \<Rightarrow> ('b \<Rightarrow> string) \<Rightarrow> 'a \<Rightarrow> 'b \<Rightarrow> string \<Rightarrow> sink \<Rightarrow> sink" where
  "PrintSplit_stub insA insB a b split out = out"

definition PrintSplitLF_stub ::
  "('a \<Rightarrow> string) \<Rightarrow> ('b \<Rightarrow> string) \<Rightarrow> 'a \<Rightarrow> 'b \<Rightarrow> string \<Rightarrow> sink \<Rightarrow> sink" where
  "PrintSplitLF_stub insA insB a b split out = out"

definition PrintEQ_stub :: "('a \<Rightarrow> string) \<Rightarrow> ('b \<Rightarrow> string) \<Rightarrow> 'a \<Rightarrow> 'b \<Rightarrow> sink \<Rightarrow> sink" where
  "PrintEQ_stub insA insB a b out = out"

definition PrintEQLF_stub :: "('a \<Rightarrow> string) \<Rightarrow> ('b \<Rightarrow> string) \<Rightarrow> 'a \<Rightarrow> 'b \<Rightarrow> sink \<Rightarrow> sink" where
  "PrintEQLF_stub insA insB a b out = out"

definition PrintVS_stub :: "('a \<Rightarrow> string) \<Rightarrow> ('b \<Rightarrow> string) \<Rightarrow> 'a \<Rightarrow> 'b \<Rightarrow> sink \<Rightarrow> sink" where
  "PrintVS_stub insA insB a b out = out"

definition PrintVSLF_stub :: "('a \<Rightarrow> string) \<Rightarrow> ('b \<Rightarrow> string) \<Rightarrow> 'a \<Rightarrow> 'b \<Rightarrow> sink \<Rightarrow> sink" where
  "PrintVSLF_stub insA insB a b out = out"

definition PrintElement_stub :: "('e \<Rightarrow> string) \<Rightarrow> 'e \<Rightarrow> bool \<Rightarrow> sink \<Rightarrow> sink" where
  "PrintElement_stub ins e first out = out"

definition PrintRange_stub :: "('e \<Rightarrow> string) \<Rightarrow> 'e list \<Rightarrow> nat \<Rightarrow> nat \<Rightarrow> sink \<Rightarrow> outcome" where
  "PrintRange_stub ins c bgn en out = Inr out"

definition PrintContainer_stub :: "('e \<Rightarrow> string) \<Rightarrow> 'e list \<Rightarrow> string \<Rightarrow> sink \<Rightarrow> outcome" where
  "PrintContainer_stub ins c containerName out = Inr out"

definition PrintAB2String_stub ::
  "('a \<Rightarrow> string) \<Rightarrow> ('b \<Rightarrow> string) \<Rightarrow> 'a \<Rightarrow> 'b \<Rightarrow> sink \<Rightarrow> sink" where
  "PrintAB2String_stub insA toString a b out = out"

definition Print2String_stub :: "('t \<Rightarrow> string) \<Rightarrow> 't \<Rightarrow> string \<Rightarrow> sink \<Rightarrow> sink" where
  "Print2String_stub toString t prefix out = out"

definition PrintRangeToString_stub ::
  "('e \<Rightarrow> string) \<Rightarrow> 'e list \<Rightarrow> nat \<Rightarrow> nat \<Rightarrow> sink \<Rightarrow> outcome" where
  "PrintRangeToString_stub ToString c bgn en out = Inr out"

definition PrintContainerToString_stub ::
  "('e \<Rightarrow> string) \<Rightarrow> 'e list \<Rightarrow> string \<Rightarrow> sink \<Rightarrow> outcome" where
  "PrintContainerToString_stub ToString c containerName out = Inr out"

definition PrintContainer2String_stub ::
  "('e \<Rightarrow> string) \<Rightarrow> 'e list \<Rightarrow> string \<Rightarrow> sink \<Rightarrow> outcome" where
  "PrintContainer2String_stub toString c containerName out = Inr out"

definition PrintVectorToString_stub ::
  "('o \<Rightarrow> string) \<Rightarrow> 'o option list \<Rightarrow> string \<Rightarrow> sink \<Rightarrow> outcome" where
  "PrintVectorToString_stub ToString c containerName out = Inr out"

definition PrintVector2String_stub ::
  "('o \<Rightarrow> string) \<Rightarrow> 'o option list \<Rightarrow> string \<Rightarrow> sink \<Rightarrow> outcome" where
  "PrintVector2String_stub toString c containerName out = Inr out"

definition PrintVectorMapping_stub ::
  "('e \<Rightarrow> string) \<Rightarrow> 'e list \<Rightarrow> string \<Rightarrow> sink \<Rightarrow> sink" where
  "PrintVectorMapping_stub ins v vectorName out = out"

definition PrintVectorRange_stub ::
  "('e \<Rightarrow> string) \<Rightarrow> 'e list \<Rightarrow> 32 word \<Rightarrow> 32 word \<Rightarrow> sink \<Rightarrow> outcome" where
  "PrintVectorRange_stub ins v from to out = Inr out"

subsection \<open>What each branch of the \<^verbatim>\<open>#ifdef\<close> declares\<close>

text \<open>
  A declaration is the name of a function template with its parameters in the order of
  the header; a parameter is its type and its default argument, if it has one (for a
  string, the characters of the default). Parameter names are left out: the two branches
  name the parameters of \<open>PrintVectorRange\<close> differently.
\<close>

type_synonym parameter = "string \<times> string option"

type_synonym prototype = "string \<times> parameter list"

definition enabled_declarations :: "prototype list" where
  "enabled_declarations =
    [(''Print'', [(''const T&'', None)]),
     (''PrintLF'', [(''const T&'', None)]),
     (''Print'', [(''const A&'', None), (''const B&'', None)]),
     (''PrintLF'', [(''const A&'', None), (''const B&'', None)]),
     (''PrintSplit'', [(''const A&'', None), (''const B&'', None), (''const std::string'', Some '': '')]),
     (''PrintSplitLF'', [(''const A&'', None), (''const B&'', None), (''const std::string'', Some '': '')]),
     (''PrintEQ'', [(''const A&'', None), (''const B&'', None)]),
     (''PrintEQLF'', [(''const A&'', None), (''const B&'', None)]),
     (''PrintVS'', [(''const A&'', None), (''const B&'', None)]),
     (''PrintVSLF'', [(''const A&'', None), (''const B&'', None)]),
     (''PrintElement'', [(''const E&'', None), (''bool'', Some ''false'')]),
     (''PrintRange'', [(''ITERATOR'', None), (''ITERATOR'', None)]),
     (''PrintContainer'', [(''const C&'', None), (''const std::string&'', Some [])]),
     (''PrintAB2String'', [(''const A&'', None), (''const B&'', None)]),
     (''Print2String'', [(''const T&'', None), (''const std::string&'', Some [])]),
     (''PrintRangeToString'', [(''ITERATOR'', None), (''ITERATOR'', None)]),
     (''PrintRange2String'', [(''ITERATOR'', None), (''ITERATOR'', None)]),
     (''PrintContainerToString'', [(''const C&'', None), (''const std::string&'', Some [])]),
     (''PrintContainer2String'', [(''const C&'', None), (''const std::string&'', Some [])]),
     (''PrintVectorToString'', [(''const C&'', None), (''const std::string&'', Some [])]),
     (''PrintVector2String'', [(''const C&'', None), (''const std::string&'', Some [])]),
     (''PrintVectorMapping'', [(''const V&'', None), (''const std::string&'', Some [])]),
     (''PrintVectorRange'', [(''const V&'', None), (''unsigned int'', None), (''unsigned int'', None)])]"

definition disabled_declarations :: "prototype list" where
  "disabled_declarations =
    [(''Print'', [(''const T&'', None)]),
     (''PrintLF'', [(''const T&'', None)]),
     (''Print'', [(''const A&'', None), (''const B&'', None)]),
     (''PrintLF'', [(''const A&'', None), (''const B&'', None)]),
     (''PrintSplit'', [(''const A&'', None), (''const B&'', None), (''const std::string'', Some '': '')]),
     (''PrintSplitLF'', [(''const A&'', None), (''const B&'', None), (''const std::string'', Some '': '')]),
     (''PrintEQ'', [(''const A&'', None), (''const B&'', None)]),
     (''PrintEQLF'', [(''const A&'', None), (''const B&'', None)]),
     (''PrintVS'', [(''const A&'', None), (''const B&'', None)]),
     (''PrintVSLF'', [(''const A&'', None), (''const B&'', None)]),
     (''PrintElement'', [(''const E&'', None), (''bool'', Some ''false'')]),
     (''PrintRange'', [(''ITERATOR'', None), (''ITERATOR'', None)]),
     (''PrintContainer'', [(''const C&'', None), (''const std::string&'', Some [])]),
     (''PrintAB2String'', [(''const A&'', None), (''const B&'', None)]),
     (''Print2String'', [(''const T&'', None), (''const std::string&'', Some [])]),
     (''PrintRangeToString'', [(''ITERATOR'', None), (''ITERATOR'', None)]),
     (''PrintContainerToString'', [(''const C&'', None), (''const std::string&'', Some [])]),
     (''PrintContainer2String'', [(''const C&'', None), (''const std::string&'', Some [])]),
     (''PrintVectorToString'', [(''const C&'', None), (''const std::string&'', Some [])]),
     (''PrintVector2String'', [(''const C&'', None), (''const std::string&'', Some [])]),
     (''PrintVectorMapping'', [(''const V&'', None), (''const std::string&'', Some [])]),
     (''PrintVectorRange'', [(''const V&'', None), (''unsigned int'', None), (''unsigned int'', None)])]"

text \<open>The declarations of the enabled branch that the disabled branch does not repeat.\<close>

definition without_stub :: "prototype list" where
  "without_stub = filter (\<lambda>d. \<not> List.member disabled_declarations d) enabled_declarations"

subsection \<open>The stream with its formatting state\<close>

text \<open>
  \<^verbatim>\<open>std::cout\<close> keeps formatting state between insertions: the base set by
  \<^verbatim>\<open>std::hex\<close>, the field width, flags that an \<^verbatim>\<open>operator<<\<close> of the caller's own type
  sets. An argument of a helper can be a manipulator, and an argument's \<^verbatim>\<open>operator<<\<close>
  can leave the state changed, so what a call writes can depend on the call before it.
  The definitions above are the helpers on a stream whose state no insertion reads or
  changes. The definitions of this part are the same helpers with the state: the stream
  is its content and its formatting state \<open>'f\<close>, and an inserter gives, for a value and
  the state it finds, the characters written and the state it leaves.
\<close>

record 'f ostream =
  content :: string
  fmt :: 'f

type_synonym ('t, 'f) inserter = "'t \<Rightarrow> 'f \<Rightarrow> string \<times> 'f"

text \<open>\<^verbatim>\<open>std::cout << t\<close>.\<close>

definition shl :: "('t, 'f) inserter \<Rightarrow> 't \<Rightarrow> 'f ostream \<Rightarrow> 'f ostream" where
  "shl ins t s = \<lparr>content = content s @ fst (ins t (fmt s)), fmt = snd (ins t (fmt s))\<rparr>"

text \<open>
  \<^verbatim>\<open>std::cout << std::endl\<close>: \<^verbatim>\<open>put('\n')\<close>, an unformatted output that neither reads
  nor changes the formatting state, and a flush.
\<close>

definition put_endl :: "'f ostream \<Rightarrow> 'f ostream" where
  "put_endl s = s\<lparr>content := content s @ endl\<rparr>"

text \<open>
  The inserters of the standard library that the helpers use themselves: for character
  strings (\<^verbatim>\<open>const char*\<close>, \<^verbatim>\<open>std::string\<close>) and for \<^verbatim>\<open>size_t\<close>. What they write
  depends on the state (width, fill, base), so they are parameters.
\<close>

record 'f stdlib =
  ins_chars :: "(string, 'f) inserter"
  ins_size :: "(nat, 'f) inserter"

type_synonym 'f outcome_fmt = "fault + 'f ostream"

definition and_then_fmt ::
  "'f outcome_fmt \<Rightarrow> ('f ostream \<Rightarrow> 'f outcome_fmt) \<Rightarrow> 'f outcome_fmt" where
  "and_then_fmt r f = (case r of Inl x \<Rightarrow> Inl x | Inr s \<Rightarrow> f s)"

definition Print_fmt :: "('t, 'f) inserter \<Rightarrow> 't \<Rightarrow> 'f ostream \<Rightarrow> 'f ostream" where
  "Print_fmt ins t s = shl ins t s"

definition PrintLF_fmt :: "('t, 'f) inserter \<Rightarrow> 't \<Rightarrow> 'f ostream \<Rightarrow> 'f ostream" where
  "PrintLF_fmt ins t s = put_endl (shl ins t s)"

definition Print2_fmt ::
  "('a, 'f) inserter \<Rightarrow> ('b, 'f) inserter \<Rightarrow> 'a \<Rightarrow> 'b \<Rightarrow> 'f ostream \<Rightarrow> 'f ostream" where
  "Print2_fmt insA insB a b s = shl insB b (shl insA a s)"

definition PrintLF2_fmt ::
  "('a, 'f) inserter \<Rightarrow> ('b, 'f) inserter \<Rightarrow> 'a \<Rightarrow> 'b \<Rightarrow> 'f ostream \<Rightarrow> 'f ostream" where
  "PrintLF2_fmt insA insB a b s = put_endl (shl insB b (shl insA a s))"

definition PrintSplit_fmt ::
  "'f stdlib \<Rightarrow> ('a, 'f) inserter \<Rightarrow> ('b, 'f) inserter \<Rightarrow> 'a \<Rightarrow> 'b \<Rightarrow> string
   \<Rightarrow> 'f ostream \<Rightarrow> 'f ostream" where
  "PrintSplit_fmt L insA insB a b split s = shl insB b (shl (ins_chars L) split (shl insA a s))"

definition PrintSplitLF_fmt ::
  "'f stdlib \<Rightarrow> ('a, 'f) inserter \<Rightarrow> ('b, 'f) inserter \<Rightarrow> 'a \<Rightarrow> 'b \<Rightarrow> string
   \<Rightarrow> 'f ostream \<Rightarrow> 'f ostream" where
  "PrintSplitLF_fmt L insA insB a b split s =
     put_endl (shl insB b (shl (ins_chars L) split (shl insA a s)))"

definition PrintEQ_fmt ::
  "'f stdlib \<Rightarrow> ('a, 'f) inserter \<Rightarrow> ('b, 'f) inserter \<Rightarrow> 'a \<Rightarrow> 'b
   \<Rightarrow> 'f ostream \<Rightarrow> 'f ostream" where
  "PrintEQ_fmt L insA insB a b s = shl insB b (shl (ins_chars L) '' = '' (shl insA a s))"

definition PrintEQLF_fmt ::
  "'f stdlib \<Rightarrow> ('a, 'f) inserter \<Rightarrow> ('b, 'f) inserter \<Rightarrow> 'a \<Rightarrow> 'b
   \<Rightarrow> 'f ostream \<Rightarrow> 'f ostream" where
  "PrintEQLF_fmt L insA insB a b s =
     put_endl (shl insB b (shl (ins_chars L) '' = '' (shl insA a s)))"

definition PrintVS_fmt ::
  "'f stdlib \<Rightarrow> ('a, 'f) inserter \<Rightarrow> ('b, 'f) inserter \<Rightarrow> 'a \<Rightarrow> 'b
   \<Rightarrow> 'f ostream \<Rightarrow> 'f ostream" where
  "PrintVS_fmt L insA insB a b s = shl insB b (shl (ins_chars L) '' vs '' (shl insA a s))"

definition PrintVSLF_fmt ::
  "'f stdlib \<Rightarrow> ('a, 'f) inserter \<Rightarrow> ('b, 'f) inserter \<Rightarrow> 'a \<Rightarrow> 'b
   \<Rightarrow> 'f ostream \<Rightarrow> 'f ostream" where
  "PrintVSLF_fmt L insA insB a b s =
     put_endl (shl insB b (shl (ins_chars L) '' vs '' (shl insA a s)))"

definition PrintElement_fmt ::
  "'f stdlib \<Rightarrow> ('e, 'f) inserter \<Rightarrow> 'e \<Rightarrow> bool \<Rightarrow> 'f ostream \<Rightarrow> 'f ostream" where
  "PrintElement_fmt L ins e first s =
     (let s1 = (if \<not> first then shl (ins_chars L) '', '' s else s)
      in shl ins e s1)"

function PrintRange_loop_fmt ::
  "'f stdlib \<Rightarrow> ('e, 'f) inserter \<Rightarrow> 'e list \<Rightarrow> nat \<Rightarrow> nat \<Rightarrow> 'f ostream \<Rightarrow> 'f outcome_fmt" where
  "PrintRange_loop_fmt L ins c bgn en s =
     (if bgn \<noteq> en then
        (if bgn < length c then
           PrintRange_loop_fmt L ins c (Suc bgn) en
             (shl (ins_chars L) '' '' (shl ins (c ! bgn) s))
         else Inl (Deref_Past_End bgn))
      else Inr s)"
  by pat_completeness auto
termination
  by (relation "measure (\<lambda>(L, ins, c, bgn, en, s). length c - bgn)") auto

declare PrintRange_loop_fmt.simps [simp del]

definition PrintRange_fmt ::
  "'f stdlib \<Rightarrow> ('e, 'f) inserter \<Rightarrow> 'e list \<Rightarrow> nat \<Rightarrow> nat \<Rightarrow> 'f ostream \<Rightarrow> 'f outcome_fmt" where
  "PrintRange_fmt L ins c bgn en s =
     and_then_fmt (PrintRange_loop_fmt L ins c bgn en (shl (ins_chars L) ''{ '' s))
       (\<lambda>s1. Inr (put_endl (shl (ins_chars L) ''}'' s1)))"

definition PrintContainer_fmt ::
  "'f stdlib \<Rightarrow> ('e, 'f) inserter \<Rightarrow> 'e list \<Rightarrow> string \<Rightarrow> 'f ostream \<Rightarrow> 'f outcome_fmt" where
  "PrintContainer_fmt L ins c containerName s =
     (let s1 = (if containerName \<noteq> []
                then shl (ins_chars L) '' '' (shl (ins_chars L) containerName s) else s);
          s2 = shl (ins_chars L) '' '' (shl (ins_size L) (length c)
                 (shl (ins_chars L) ''size = '' s1))
      in PrintRange_fmt L ins c 0 (length c) s2)"

text \<open>
  \<^verbatim>\<open>toString()\<close> and \<^verbatim>\<open>ToString()\<close> return a string, which the library's inserter
  writes.
\<close>

definition PrintAB2String_fmt ::
  "'f stdlib \<Rightarrow> ('a, 'f) inserter \<Rightarrow> ('b \<Rightarrow> string) \<Rightarrow> 'a \<Rightarrow> 'b \<Rightarrow> 'f ostream \<Rightarrow> 'f ostream" where
  "PrintAB2String_fmt L insA toString a b s =
     put_endl (shl (ins_chars L) (toString b) (shl (ins_chars L) '' = '' (shl insA a s)))"

definition Print2String_fmt ::
  "'f stdlib \<Rightarrow> ('t \<Rightarrow> string) \<Rightarrow> 't \<Rightarrow> string \<Rightarrow> 'f ostream \<Rightarrow> 'f ostream" where
  "Print2String_fmt L toString t prefix s =
     (let s1 = (if prefix \<noteq> []
                then shl (ins_chars L) '': '' (shl (ins_chars L) prefix s) else s)
      in put_endl (shl (ins_chars L) (toString t) s1))"

function PrintRangeToString_loop_fmt ::
  "'f stdlib \<Rightarrow> ('e \<Rightarrow> string) \<Rightarrow> 'e list \<Rightarrow> nat \<Rightarrow> nat \<Rightarrow> 'f ostream \<Rightarrow> 'f outcome_fmt" where
  "PrintRangeToString_loop_fmt L ToString c bgn en s =
     (if bgn \<noteq> en then
        (if bgn < length c then
           (let s1 = shl (ins_chars L) '' '' (shl (ins_chars L) (ToString (c ! bgn)) s);
                bgn1 = Suc bgn
            in if bgn1 < length c
               then PrintRangeToString_loop_fmt L ToString c (Suc bgn1) en s1
               else Inl (Increment_Past_End bgn1))
         else Inl (Deref_Past_End bgn))
      else Inr s)"
  by pat_completeness auto
termination
  by (relation "measure (\<lambda>(L, ToString, c, bgn, en, s). length c - bgn)") auto

declare PrintRangeToString_loop_fmt.simps [simp del]

definition PrintRangeToString_fmt ::
  "'f stdlib \<Rightarrow> ('e \<Rightarrow> string) \<Rightarrow> 'e list \<Rightarrow> nat \<Rightarrow> nat \<Rightarrow> 'f ostream \<Rightarrow> 'f outcome_fmt" where
  "PrintRangeToString_fmt L ToString c bgn en s =
     and_then_fmt (PrintRangeToString_loop_fmt L ToString c bgn en (shl (ins_chars L) ''{ '' s))
       (\<lambda>s1. Inr (shl (ins_chars L) ''}'' s1))"

function PrintRange2String_loop_fmt ::
  "'f stdlib \<Rightarrow> ('e \<Rightarrow> string) \<Rightarrow> 'e list \<Rightarrow> nat \<Rightarrow> nat \<Rightarrow> 'f ostream \<Rightarrow> 'f outcome_fmt" where
  "PrintRange2String_loop_fmt L toString c bgn en s =
     (if bgn \<noteq> en then
        (if bgn < length c then
           (let s1 = shl (ins_chars L) '' '' (shl (ins_chars L) (toString (c ! bgn)) s);
                bgn1 = Suc bgn
            in if bgn1 < length c
               then PrintRange2String_loop_fmt L toString c (Suc bgn1) en s1
               else Inl (Increment_Past_End bgn1))
         else Inl (Deref_Past_End bgn))
      else Inr s)"
  by pat_completeness auto
termination
  by (relation "measure (\<lambda>(L, toString, c, bgn, en, s). length c - bgn)") auto

declare PrintRange2String_loop_fmt.simps [simp del]

definition PrintRange2String_fmt ::
  "'f stdlib \<Rightarrow> ('e \<Rightarrow> string) \<Rightarrow> 'e list \<Rightarrow> nat \<Rightarrow> nat \<Rightarrow> 'f ostream \<Rightarrow> 'f outcome_fmt" where
  "PrintRange2String_fmt L toString c bgn en s =
     and_then_fmt (PrintRange2String_loop_fmt L toString c bgn en (shl (ins_chars L) ''{ '' s))
       (\<lambda>s1. Inr (shl (ins_chars L) ''}'' s1))"

definition PrintContainerToString_fmt ::
  "'f stdlib \<Rightarrow> ('e \<Rightarrow> string) \<Rightarrow> 'e list \<Rightarrow> string \<Rightarrow> 'f ostream \<Rightarrow> 'f outcome_fmt" where
  "PrintContainerToString_fmt L ToString c containerName s =
     (let s1 = (if containerName \<noteq> []
                then shl (ins_chars L) '' '' (shl (ins_chars L) containerName s) else s);
          s2 = put_endl (shl (ins_size L) (length c) (shl (ins_chars L) ''size = '' s1))
      in PrintRangeToString_fmt L ToString c 0 (length c) s2)"

definition PrintContainer2String_fmt ::
  "'f stdlib \<Rightarrow> ('e \<Rightarrow> string) \<Rightarrow> 'e list \<Rightarrow> string \<Rightarrow> 'f ostream \<Rightarrow> 'f outcome_fmt" where
  "PrintContainer2String_fmt L toString c containerName s =
     (let s1 = (if containerName \<noteq> []
                then shl (ins_chars L) '' '' (shl (ins_chars L) containerName s) else s);
          s2 = put_endl (shl (ins_size L) (length c) (shl (ins_chars L) ''size = '' s1))
      in PrintRange2String_fmt L toString c 0 (length c) s2)"

fun PrintVectorToString_loop_fmt ::
  "'f stdlib \<Rightarrow> ('o \<Rightarrow> string) \<Rightarrow> 'o option list \<Rightarrow> 'f ostream \<Rightarrow> 'f outcome_fmt" where
  "PrintVectorToString_loop_fmt L ToString [] s = Inr s"
| "PrintVectorToString_loop_fmt L ToString (x # xs) s =
     (case x of
        None \<Rightarrow> Inl Null_Handle
      | Some obj \<Rightarrow>
          PrintVectorToString_loop_fmt L ToString xs
            (shl (ins_chars L) (ToString obj) (shl (ins_chars L) '' '' s)))"

definition PrintVectorToString_fmt ::
  "'f stdlib \<Rightarrow> ('o \<Rightarrow> string) \<Rightarrow> 'o option list \<Rightarrow> string \<Rightarrow> 'f ostream \<Rightarrow> 'f outcome_fmt" where
  "PrintVectorToString_fmt L ToString c containerName s =
     and_then_fmt
       (PrintVectorToString_loop_fmt L ToString c
          (shl (ins_chars L) '' = {'' (shl (ins_chars L) containerName s)))
       (\<lambda>s1. Inr (put_endl (shl (ins_chars L) '' }'' s1)))"

fun PrintVector2String_loop_fmt ::
  "'f stdlib \<Rightarrow> ('o \<Rightarrow> string) \<Rightarrow> 'o option list \<Rightarrow> 'f ostream \<Rightarrow> 'f outcome_fmt" where
  "PrintVector2String_loop_fmt L toString [] s = Inr s"
| "PrintVector2String_loop_fmt L toString (x # xs) s =
     (case x of
        None \<Rightarrow> Inl Null_Handle
      | Some obj \<Rightarrow>
          PrintVector2String_loop_fmt L toString xs
            (shl (ins_chars L) (toString obj) (shl (ins_chars L) '' '' s)))"

definition PrintVector2String_fmt ::
  "'f stdlib \<Rightarrow> ('o \<Rightarrow> string) \<Rightarrow> 'o option list \<Rightarrow> string \<Rightarrow> 'f ostream \<Rightarrow> 'f outcome_fmt" where
  "PrintVector2String_fmt L toString c containerName s =
     and_then_fmt
       (PrintVector2String_loop_fmt L toString c
          (shl (ins_chars L) '' = {'' (shl (ins_chars L) containerName s)))
       (\<lambda>s1. Inr (put_endl (shl (ins_chars L) '' }'' s1)))"

function PrintVectorMapping_loop_fmt ::
  "'f stdlib \<Rightarrow> ('e, 'f) inserter \<Rightarrow> 'e list \<Rightarrow> nat \<Rightarrow> 'f ostream \<Rightarrow> 'f ostream" where
  "PrintVectorMapping_loop_fmt L ins v i s =
     (if i < length v then
        PrintVectorMapping_loop_fmt L ins v (Suc i)
          (PrintSplitLF_fmt L (ins_size L) ins i (v ! i) '' -> ''
             (Print_fmt (ins_chars L) [TAB] s))
      else s)"
  by pat_completeness auto
termination
  by (relation "measure (\<lambda>(L, ins, v, i, s). length v - i)") auto

declare PrintVectorMapping_loop_fmt.simps [simp del]

definition PrintVectorMapping_fmt ::
  "'f stdlib \<Rightarrow> ('e, 'f) inserter \<Rightarrow> 'e list \<Rightarrow> string \<Rightarrow> 'f ostream \<Rightarrow> 'f ostream" where
  "PrintVectorMapping_fmt L ins v vectorName s =
     put_endl (shl (ins_chars L) ''}''
       (PrintVectorMapping_loop_fmt L ins v 0
          (shl (ins_chars L) ([LF] @ ''{'' @ [LF]) (shl (ins_chars L) vectorName s))))"

function PrintVectorRange_loop_fmt ::
  "'f stdlib \<Rightarrow> ('e, 'f) inserter \<Rightarrow> 'e list \<Rightarrow> 32 word \<Rightarrow> 32 word \<Rightarrow> 32 word
   \<Rightarrow> 'f ostream \<Rightarrow> 'f outcome_fmt" where
  "PrintVectorRange_loop_fmt L ins v bgn index en s =
     (if index \<noteq> en then
        (if unat index < length v then
           PrintVectorRange_loop_fmt L ins v bgn (index + 1) en
             (PrintElement_fmt L ins (v ! unat index) (index = bgn) s)
         else Inl (Index_Out_Of_Range (unat index)))
      else Inr s)"
  by pat_completeness auto
termination
proof (relation "measure (\<lambda>(L, ins, v, bgn, index, en, s). unat (en - index))")
  show "wf (measure (\<lambda>(L, ins, v, bgn, index, en, s). unat (en - index)))"
    by simp
next
  fix L :: "'f stdlib" and ins :: "('e, 'f) inserter" and v :: "'e list"
    and bgn index en :: "32 word" and s :: "'f ostream"
  assume ne: "index \<noteq> en"
  then have nz: "en - index \<noteq> 0"
    by simp
  have pred: "unat (x - 1) < unat x" if "x \<noteq> 0" for x :: "32 word"
    using that by (simp add: unat_minus_one unat_gt_0)
  have eq: "en - (index + 1) = (en - index) - 1"
    by simp
  have "unat (en - (index + 1)) < unat (en - index)"
    unfolding eq by (rule pred [OF nz])
  then show "((L, ins, v, bgn, index + 1, en,
               PrintElement_fmt L ins (v ! unat index) (index = bgn) s),
              (L, ins, v, bgn, index, en, s))
             \<in> measure (\<lambda>(L, ins, v, bgn, index, en, s). unat (en - index))"
    by simp
qed

declare PrintVectorRange_loop_fmt.simps [simp del]

definition PrintVectorRange_fmt ::
  "'f stdlib \<Rightarrow> ('e, 'f) inserter \<Rightarrow> 'e list \<Rightarrow> 32 word \<Rightarrow> 32 word
   \<Rightarrow> 'f ostream \<Rightarrow> 'f outcome_fmt" where
  "PrintVectorRange_fmt L ins v bgn en s =
     and_then_fmt (PrintVectorRange_loop_fmt L ins v bgn bgn en (shl (ins_chars L) ''{'' s))
       (\<lambda>s1. Inr (put_endl (shl (ins_chars L) ''}'' s1)))"

text \<open>The macros.\<close>

definition PRINT_fmt ::
  "'f stdlib \<Rightarrow> ('a, 'f) inserter \<Rightarrow> string \<Rightarrow> 'a \<Rightarrow> 'f ostream \<Rightarrow> 'f ostream" where
  "PRINT_fmt L ins text a s = PrintSplit_fmt L (ins_chars L) ins text a default_split s"

definition PRINTLF_fmt ::
  "'f stdlib \<Rightarrow> ('a, 'f) inserter \<Rightarrow> string \<Rightarrow> 'a \<Rightarrow> 'f ostream \<Rightarrow> 'f ostream" where
  "PRINTLF_fmt L ins text a s = PrintSplitLF_fmt L (ins_chars L) ins text a default_split s"

definition PRINT_FUNCTION_NAME_fmt :: "'f stdlib \<Rightarrow> string \<Rightarrow> 'f ostream \<Rightarrow> 'f ostream" where
  "PRINT_FUNCTION_NAME_fmt L func s = put_endl (shl (ins_chars L) func s)"

definition PRINT_FUNCTION_SPLIT_LINE_fmt :: "'f stdlib \<Rightarrow> string \<Rightarrow> 'f ostream \<Rightarrow> 'f ostream" where
  "PRINT_FUNCTION_SPLIT_LINE_fmt L func s =
     put_endl (shl (ins_chars L) '' ======''
       (shl (ins_chars L) func (shl (ins_chars L) ''===== '' s)))"

definition PRINT_CONTAINER_fmt ::
  "'f stdlib \<Rightarrow> ('e, 'f) inserter \<Rightarrow> string \<Rightarrow> 'e list \<Rightarrow> 'f ostream \<Rightarrow> 'f outcome_fmt" where
  "PRINT_CONTAINER_fmt L ins text c s = PrintContainer_fmt L ins c text s"

definition PRINT_CONTAINER_TO_STRING_fmt ::
  "'f stdlib \<Rightarrow> ('e \<Rightarrow> string) \<Rightarrow> string \<Rightarrow> 'e list \<Rightarrow> 'f ostream \<Rightarrow> 'f outcome_fmt" where
  "PRINT_CONTAINER_TO_STRING_fmt L ToString text v s =
     PrintContainerToString_fmt L ToString v text s"

definition PRINT_CONTAINER_2_STRING_fmt ::
  "'f stdlib \<Rightarrow> ('e \<Rightarrow> string) \<Rightarrow> string \<Rightarrow> 'e list \<Rightarrow> 'f ostream \<Rightarrow> 'f outcome_fmt" where
  "PRINT_CONTAINER_2_STRING_fmt L toString text v s =
     PrintContainer2String_fmt L toString v text s"

definition PRINT_VECTOR_TO_STRING_fmt ::
  "'f stdlib \<Rightarrow> ('o \<Rightarrow> string) \<Rightarrow> string \<Rightarrow> 'o option list \<Rightarrow> 'f ostream \<Rightarrow> 'f outcome_fmt" where
  "PRINT_VECTOR_TO_STRING_fmt L ToString text v s = PrintVectorToString_fmt L ToString v text s"

definition PRINT_VECTOR_2_STRING_fmt ::
  "'f stdlib \<Rightarrow> ('o \<Rightarrow> string) \<Rightarrow> string \<Rightarrow> 'o option list \<Rightarrow> 'f ostream \<Rightarrow> 'f outcome_fmt" where
  "PRINT_VECTOR_2_STRING_fmt L toString text v s = PrintVector2String_fmt L toString v text s"

definition PRINT_VECTOR_MAPPING_fmt ::
  "'f stdlib \<Rightarrow> ('e, 'f) inserter \<Rightarrow> string \<Rightarrow> 'e list \<Rightarrow> 'f ostream \<Rightarrow> 'f ostream" where
  "PRINT_VECTOR_MAPPING_fmt L ins text v s = PrintVectorMapping_fmt L ins v text s"

text \<open>
  A formatting state that is the base alone (\<^verbatim>\<open>std::ios_base::basefield\<close>), with the
  inserters of the standard library on it. The field width is 0 throughout, so a string
  is written as it is. \<^verbatim>\<open>operator<<\<close> for \<^verbatim>\<open>int\<close> writes the value in the base; in
  base 16 and 8 it writes the 32-bit unsigned value. A manipulator such as \<^verbatim>\<open>std::hex\<close>
  is a function on the state; inserting it writes nothing and applies it.
\<close>

datatype basefield = Dec | Hex | Oct

definition hex_digit :: "nat \<Rightarrow> char" where
  "hex_digit n = ''0123456789abcdef'' ! n"

function hex_nat :: "nat \<Rightarrow> string" where
  "hex_nat n = (if n < 16 then [hex_digit n] else hex_nat (n div 16) @ [hex_digit (n mod 16)])"
  by pat_completeness auto
termination
  by (relation "measure id") auto

declare hex_nat.simps [simp del]

function oct_nat :: "nat \<Rightarrow> string" where
  "oct_nat n = (if n < 8 then [digit n] else oct_nat (n div 8) @ [digit (n mod 8)])"
  by pat_completeness auto
termination
  by (relation "measure id") auto

declare oct_nat.simps [simp del]

definition ins_nat_base :: "(nat, basefield) inserter" where
  "ins_nat_base n b = (case b of Dec \<Rightarrow> dec_nat n | Hex \<Rightarrow> hex_nat n | Oct \<Rightarrow> oct_nat n, b)"

definition ins_int_base :: "(int, basefield) inserter" where
  "ins_int_base i b =
     (case b of
        Dec \<Rightarrow> dec_int i
      | Hex \<Rightarrow> hex_nat (nat (i mod 2 ^ 32))
      | Oct \<Rightarrow> oct_nat (nat (i mod 2 ^ 32)), b)"

definition ins_chars_base :: "(string, basefield) inserter" where
  "ins_chars_base str b = (str, b)"

definition base_lib :: "basefield stdlib" where
  "base_lib = \<lparr>ins_chars = ins_chars_base, ins_size = ins_nat_base\<rparr>"

type_synonym manipulator = "basefield \<Rightarrow> basefield"

definition std_hex :: manipulator where
  "std_hex b = Hex"

definition std_dec :: manipulator where
  "std_dec b = Dec"

definition ins_manipulator :: "(manipulator, basefield) inserter" where
  "ins_manipulator m b = ([], m b)"

text \<open>
  A call restores the formatting state when the stream has, after it, the state it had
  before; \<open>appended\<close> is what a call wrote, between the stream before and the stream
  after. \<open>doubles\<close> says of a call that, if it restores the state, it has written at the
  end of the prior content and the same call made again writes the same characters once
  more; \<open>doubles_or_faults\<close> says so of a call that returns.
\<close>

definition appended :: "'f ostream \<Rightarrow> 'f ostream \<Rightarrow> string" where
  "appended s s1 = drop (length (content s)) (content s1)"

definition doubles :: "('f ostream \<Rightarrow> 'f ostream) \<Rightarrow> 'f ostream \<Rightarrow> bool" where
  "doubles F s =
     (fmt (F s) = fmt s \<longrightarrow>
        content (F s) = content s @ appended s (F s)
        \<and> F (F s) = \<lparr>content = content s @ appended s (F s) @ appended s (F s), fmt = fmt s\<rparr>)"

definition doubles_or_faults :: "('f ostream \<Rightarrow> 'f outcome_fmt) \<Rightarrow> 'f ostream \<Rightarrow> bool" where
  "doubles_or_faults F s =
     (case F s of
        Inl x \<Rightarrow> True
      | Inr s1 \<Rightarrow>
          fmt s1 = fmt s \<longrightarrow>
            content s1 = content s @ appended s s1
            \<and> F s1 = Inr \<lparr>content = content s @ appended s s1 @ appended s s1, fmt = fmt s\<rparr>)"

text \<open>
  The content \<open>p\<close> placed before the content of a stream, and of the stream a call
  returns.
\<close>

definition prepend :: "string \<Rightarrow> 'f ostream \<Rightarrow> 'f ostream" where
  "prepend p s = s\<lparr>content := p @ content s\<rparr>"

definition prepend_outcome :: "string \<Rightarrow> 'f outcome_fmt \<Rightarrow> 'f outcome_fmt" where
  "prepend_outcome p r = (case r of Inl x \<Rightarrow> Inl x | Inr s \<Rightarrow> Inr (prepend p s))"

text \<open>
  An inserter that neither reads nor changes the formatting state, and the library's
  inserters of that kind: a string is written as it is and a \<^verbatim>\<open>size_t\<close> in decimal.
  With them the helpers of this part are the helpers of the first part, see
  \<open>pure_plain\<close>, \<open>fallible_plain\<close> and \<open>PrintVectorMapping_plain\<close> below.
\<close>

definition plain :: "('t \<Rightarrow> string) \<Rightarrow> ('t, 'f) inserter" where
  "plain ins t f = (ins t, f)"

definition plain_lib :: "'f stdlib" where
  "plain_lib = \<lparr>ins_chars = plain ins_string, ins_size = plain dec_nat\<rparr>"

definition with_content :: "'f ostream \<Rightarrow> outcome \<Rightarrow> 'f outcome_fmt" where
  "with_content s r = (case r of Inl x \<Rightarrow> Inl x | Inr out \<Rightarrow> Inr (s\<lparr>content := out\<rparr>))"

section \<open>Properties\<close>

subsection \<open>The loops\<close>

lemma onto_simps [simp]:
  "onto s (Inl x) = Inl x"
  "onto s (Inr w) = Inr (s @ w)"
  by (simp_all add: onto_def)

lemma onto_Nil [simp]: "onto [] r = r"
  by (cases r) simp_all

lemma onto_onto [simp]: "onto s (onto t r) = onto (s @ t) r"
  by (cases r) simp_all

lemma and_then_simps [simp]:
  "and_then (Inl x) f = Inl x"
  "and_then (Inr w) f = f w"
  by (simp_all add: and_then_def)








lemma PrintVectorMapping_loop_prefix:
  "PrintVectorMapping_loop ins v i (s @ out) = s @ PrintVectorMapping_loop ins v i out"
proof (induction ins v i out rule: PrintVectorMapping_loop.induct)
  case (1 ins v i out)
  show ?case
  proof (cases "i < length v")
    case True
    then show ?thesis
      using "1.IH" 
      by (subst PrintVectorMapping_loop.simps, subst (2) PrintVectorMapping_loop.simps) 
         (simp add: PrintSplitLF_def Print_def)
  next
    case False
    then show ?thesis
      by (subst PrintVectorMapping_loop.simps, subst (2) PrintVectorMapping_loop.simps) auto
  qed
qed



lemma PrintRange_loop_closed:
  "bgn \<le> en \<Longrightarrow> en \<le> length c \<Longrightarrow>
   PrintRange_loop ins c bgn en out = Inr (out @ concat (map (\<lambda>j. ins (c ! j) @ '' '') [bgn..<en]))"
proof (induction "en - bgn" arbitrary: bgn out)
  case 0
  then have "bgn = en" by simp
  then show ?case
    by (subst PrintRange_loop.simps) simp
next
  case (Suc n)
  then have lt: "bgn < en" and inr: "bgn < length c" and n: "n = en - Suc bgn"
    by simp_all
  have "PrintRange_loop ins c (Suc bgn) en (out @ ins (c ! bgn) @ '' '') =
        Inr ((out @ ins (c ! bgn) @ '' '') @ concat (map (\<lambda>j. ins (c ! j) @ '' '') [Suc bgn..<en]))"
    using Suc.hyps(1) [OF n] lt Suc.prems(2) by simp
  then show ?case
    using lt inr by (subst PrintRange_loop.simps) (simp add: upt_conv_Cons)
qed

lemma upt_Suc_shift: "[0..<Suc k] = 0 # map Suc [0..<k]"
  by (simp add: upt_conv_Cons map_Suc_upt del: upt_Suc)

lemma PrintRangeToString_loop_even:
  "bgn + 2 * k \<le> length c \<Longrightarrow>
   PrintRangeToString_loop f c bgn (bgn + 2 * k) out =
     Inr (out @ concat (map (\<lambda>i. f (c ! (bgn + 2 * i)) @ '' '') [0..<k]))"
proof (induction k arbitrary: bgn out)
  case 0
  show ?case
    by (subst PrintRangeToString_loop.simps) simp
next
  case (Suc k)
  have le: "Suc (Suc bgn) + 2 * k \<le> length c"
    using Suc.prems by simp
  have en: "bgn + 2 * Suc k = Suc (Suc bgn) + 2 * k"
    by simp
  have step: "PrintRangeToString_loop f c bgn (bgn + 2 * Suc k) out =
        PrintRangeToString_loop f c (Suc (Suc bgn)) (Suc (Suc bgn) + 2 * k) (out @ f (c ! bgn) @ '' '')"
    using Suc.prems by (subst PrintRangeToString_loop.simps) (simp add: Let_def)
  show ?case
    unfolding step Suc.IH [OF le] upt_Suc_shift
    by (simp add: comp_def)
qed

lemma PrintRange2String_loop_even:
  "bgn + 2 * k \<le> length c \<Longrightarrow>
   PrintRange2String_loop f c bgn (bgn + 2 * k) out =
     Inr (out @ concat (map (\<lambda>i. f (c ! (bgn + 2 * i)) @ '' '') [0..<k]))"
proof (induction k arbitrary: bgn out)
  case 0
  show ?case
    by (subst PrintRange2String_loop.simps) simp
next
  case (Suc k)
  have le: "Suc (Suc bgn) + 2 * k \<le> length c"
    using Suc.prems by simp
  have en: "bgn + 2 * Suc k = Suc (Suc bgn) + 2 * k"
    by simp
  have step: "PrintRange2String_loop f c bgn (bgn + 2 * Suc k) out =
        PrintRange2String_loop f c (Suc (Suc bgn)) (Suc (Suc bgn) + 2 * k) (out @ f (c ! bgn) @ '' '')"
    using Suc.prems by (subst PrintRange2String_loop.simps) (simp add: Let_def)
  show ?case
    unfolding step Suc.IH [OF le] upt_Suc_shift
    by (simp add: comp_def)
qed

lemma PrintRangeToString_loop_skips:
  "bgn \<le> length c \<Longrightarrow> (\<forall>i. bgn + 2 * i \<noteq> en) \<Longrightarrow>
   PrintRangeToString_loop f c bgn en out =
     Inl (if even (length c - bgn) then Deref_Past_End (length c)
          else Increment_Past_End (length c))"
proof (induction f c bgn en out rule: PrintRangeToString_loop.induct)
  case (1 f c bgn en out)
  from "1.prems"(2) have ne: "bgn \<noteq> en"
    by (metis add.right_neutral mult_0_right)
  consider (at_end) "bgn = length c" | (last) "Suc bgn = length c" | (more) "Suc bgn < length c"
    using "1.prems"(1) by linarith
  then show ?case
  proof cases
    case at_end
    then show ?thesis
      using ne by (subst PrintRangeToString_loop.simps) simp
  next
    case last
    then have "length c - bgn = 1" by simp
    then show ?thesis
      using ne last by (subst PrintRangeToString_loop.simps) (simp add: Let_def)
  next
    case more
    have skip: "\<forall>i. Suc (Suc bgn) + 2 * i \<noteq> en"
    proof
      fix i
      have "bgn + 2 * Suc i \<noteq> en" using "1.prems"(2) by blast
      then show "Suc (Suc bgn) + 2 * i \<noteq> en" by simp
    qed
    have par: "even (length c - Suc (Suc bgn)) = even (length c - bgn)"
      using more by (simp add: Suc_diff_Suc)
    have "PrintRangeToString_loop f c bgn en out =
          PrintRangeToString_loop f c (Suc (Suc bgn)) en (out @ f (c ! bgn) @ '' '')"
      using ne more by (subst PrintRangeToString_loop.simps) (simp add: Let_def)
    also have "\<dots> = Inl (if even (length c - Suc (Suc bgn)) then Deref_Past_End (length c)
          else Increment_Past_End (length c))"
      using "1.IH" [OF ne _ refl refl _ _ skip] more by simp
    finally show ?thesis
      unfolding par .
  qed
qed

lemma PrintRange2String_loop_skips:
  "bgn \<le> length c \<Longrightarrow> (\<forall>i. bgn + 2 * i \<noteq> en) \<Longrightarrow>
   PrintRange2String_loop f c bgn en out =
     Inl (if even (length c - bgn) then Deref_Past_End (length c)
          else Increment_Past_End (length c))"
proof (induction f c bgn en out rule: PrintRange2String_loop.induct)
  case (1 f c bgn en out)
  from "1.prems"(2) have ne: "bgn \<noteq> en"
    by (metis add.right_neutral mult_0_right)
  consider (at_end) "bgn = length c" | (last) "Suc bgn = length c" | (more) "Suc bgn < length c"
    using "1.prems"(1) by linarith
  then show ?case
  proof cases
    case at_end
    then show ?thesis
      using ne by (subst PrintRange2String_loop.simps) simp
  next
    case last
    then have "length c - bgn = 1" by simp
    then show ?thesis
      using ne last by (subst PrintRange2String_loop.simps) (simp add: Let_def)
  next
    case more
    have skip: "\<forall>i. Suc (Suc bgn) + 2 * i \<noteq> en"
    proof
      fix i
      have "bgn + 2 * Suc i \<noteq> en" using "1.prems"(2) by blast
      then show "Suc (Suc bgn) + 2 * i \<noteq> en" by simp
    qed
    have par: "even (length c - Suc (Suc bgn)) = even (length c - bgn)"
      using more by (simp add: Suc_diff_Suc)
    have "PrintRange2String_loop f c bgn en out =
          PrintRange2String_loop f c (Suc (Suc bgn)) en (out @ f (c ! bgn) @ '' '')"
      using ne more by (subst PrintRange2String_loop.simps) (simp add: Let_def)
    also have "\<dots> = Inl (if even (length c - Suc (Suc bgn)) then Deref_Past_End (length c)
          else Increment_Past_End (length c))"
      using "1.IH" [OF ne _ refl refl _ _ skip] more by simp
    finally show ?thesis
      unfolding par .
  qed
qed

lemma odd_never_met: "bgn \<le> en \<Longrightarrow> odd (en - bgn) \<Longrightarrow> \<forall>i. bgn + 2 * i \<noteq> (en::nat)"
  by (metis add_diff_cancel_left' dvd_triv_left)

lemma PrintVectorToString_loop_closed:
  "PrintVectorToString_loop f (map Some objs) out = Inr (out @ concat (map (\<lambda>x. '' '' @ f x) objs))"
  by (induction objs arbitrary: out) simp_all

lemma PrintVector2String_loop_closed:
  "PrintVector2String_loop f (map Some objs) out = Inr (out @ concat (map (\<lambda>x. '' '' @ f x) objs))"
  by (induction objs arbitrary: out) simp_all

lemma PrintVectorMapping_loop_closed:
  "i \<le> length v \<Longrightarrow>
   PrintVectorMapping_loop ins v i out =
     out @ concat (map (\<lambda>j. [TAB] @ dec_nat j @ '' -> '' @ ins (v ! j) @ [LF]) [i..<length v])"
proof (induction "length v - i" arbitrary: i out)
  case 0
  then show ?case
    by (subst PrintVectorMapping_loop.simps) simp
next
  case (Suc n)
  then have lt: "i < length v" and n: "n = length v - Suc i"
    by simp_all
  show ?case
    using lt Suc.hyps(1) [OF n, of "out @ [TAB] @ dec_nat i @ '' -> '' @ ins (v ! i) @ [LF]"]
    by (subst PrintVectorMapping_loop.simps)
       (simp add: upt_conv_Cons PrintSplitLF_def Print_def ins_string_def)
qed

lemma PrintVectorRange_loop_closed:
  "unat index \<le> unat en \<Longrightarrow> unat en \<le> length v \<Longrightarrow>
   PrintVectorRange_loop ins v bgn index en out =
     Inr (out @ concat (map (\<lambda>j. (if j = unat bgn then [] else '', '') @ ins (v ! j))
                          [unat index..<unat en]))"
proof (induction "unat en - unat index" arbitrary: index out)
  case 0
  then have "unat index = unat en" by simp
  then have "index = en" by (simp add: word_unat_eq_iff)
  then show ?case
    by (subst PrintVectorRange_loop.simps) simp
next
  case (Suc n)
  then have lt: "unat index < unat en"
    by simp
  then have ne: "index \<noteq> en"
    by auto
  have inr: "unat index < length v"
    using lt Suc.prems(2) by simp
  have suc: "unat (index + 1) = Suc (unat index)"
  proof -
    have "unat en < 2 ^ 32"
      using unsigned_less [of en] by simp
    then have "unat index + unat (1 :: 32 word) < 2 ^ LENGTH(32)"
      using lt by simp
    then have "unat (index + 1) = unat index + unat (1 :: 32 word)"
      by (simp only: unat_add_lem)
    then show ?thesis by simp
  qed
  have n: "n = unat en - unat (index + 1)"
    using Suc.hyps(2) suc by simp
  have le: "unat (index + 1) \<le> unat en"
    using lt suc by simp
  have first: "(index = bgn) = (unat index = unat bgn)"
    by (simp add: word_unat_eq_iff)
  show ?case
    using ne inr Suc.hyps(1) [OF n le Suc.prems(2)] lt
    by (subst PrintVectorRange_loop.simps)
       (simp add: suc upt_conv_Cons PrintElement_def first)
qed

subsection \<open>Whole operations\<close>









lemma PrintVectorMapping_prefix:
  "PrintVectorMapping ins v name (s @ out) = s @ PrintVectorMapping ins v name out"
  by (simp add: PrintVectorMapping_def PrintVectorMapping_loop_prefix)


lemma PrintRange_full:
  "bgn \<le> en \<Longrightarrow> en \<le> length c \<Longrightarrow>
   PrintRange ins c bgn en out =
     Inr (out @ ''{ '' @ concat (map (\<lambda>j. ins (c ! j) @ '' '') [bgn..<en]) @ ''}'' @ [LF])"
  by (simp add: PrintRange_def PrintRange_loop_closed)

lemma PrintVectorMapping_full:
  "PrintVectorMapping ins v name out =
     out @ name @ [LF] @ ''{'' @ [LF]
       @ concat (map (\<lambda>j. [TAB] @ dec_nat j @ '' -> '' @ ins (v ! j) @ [LF]) [0..<length v])
       @ ''}'' @ [LF]"
  by (simp add: PrintVectorMapping_def PrintVectorMapping_loop_closed)











lemmas pure_defs =
  Print_def PrintLF_def Print2_def PrintLF2_def PrintSplit_def PrintSplitLF_def PrintEQ_def
  PrintEQLF_def PrintVS_def PrintVSLF_def PrintElement_def PrintAB2String_def Print2String_def
  PRINT_def PRINTLF_def PRINT_FUNCTION_NAME_def PRINT_FUNCTION_SPLIT_LINE_def


lemma stubs_leave_sink:
  "Print_stub ins t out = out"
  "PrintLF_stub ins t out = out"
  "Print2_stub insA insB a b out = out"
  "PrintLF2_stub insA insB a b out = out"
  "PrintSplit_stub insA insB a b split out = out"
  "PrintSplitLF_stub insA insB a b split out = out"
  "PrintEQ_stub insA insB a b out = out"
  "PrintEQLF_stub insA insB a b out = out"
  "PrintVS_stub insA insB a b out = out"
  "PrintVSLF_stub insA insB a b out = out"
  "PrintElement_stub ins e first out = out"
  "PrintRange_stub ins c bgn en out = Inr out"
  "PrintContainer_stub ins c name out = Inr out"
  "PrintAB2String_stub insA toString a b' out = out"
  "Print2String_stub toString b' name out = out"
  "PrintRangeToString_stub ToString c bgn en out = Inr out"
  "PrintContainerToString_stub ToString c name out = Inr out"
  "PrintContainer2String_stub toString c name out = Inr out"
  "PrintVectorToString_stub ToString' hs name out = Inr out"
  "PrintVector2String_stub toString' hs name out = Inr out"
  "PrintVectorMapping_stub ins c name out = out"
  "PrintVectorRange_stub ins c from to out = Inr out"
  by (simp_all add: Print_stub_def PrintLF_stub_def Print2_stub_def PrintLF2_stub_def
      PrintSplit_stub_def PrintSplitLF_stub_def PrintEQ_stub_def PrintEQLF_stub_def
      PrintVS_stub_def PrintVSLF_stub_def PrintElement_stub_def PrintRange_stub_def
      PrintContainer_stub_def PrintAB2String_stub_def Print2String_stub_def
      PrintRangeToString_stub_def PrintContainerToString_stub_def
      PrintContainer2String_stub_def PrintVectorToString_stub_def
      PrintVector2String_stub_def PrintVectorMapping_stub_def PrintVectorRange_stub_def)

lemma PrintVectorToString_full:
  "PrintVectorToString f (map Some objs) name out =
     Inr (out @ name @ '' = {'' @ concat (map (\<lambda>x. '' '' @ f x) objs) @ '' }'' @ [LF])"
  by (simp add: PrintVectorToString_def PrintVectorToString_loop_closed)

lemma PrintVector2String_full:
  "PrintVector2String f (map Some objs) name out =
     Inr (out @ name @ '' = {'' @ concat (map (\<lambda>x. '' '' @ f x) objs) @ '' }'' @ [LF])"
  by (simp add: PrintVector2String_def PrintVector2String_loop_closed)

subsection \<open>The stream with its formatting state\<close>

lemma prepend_outcome_simps [simp]:
  "prepend_outcome c (Inl x) = Inl x"
  "prepend_outcome c (Inr s) = Inr (prepend c s)"
  by (simp_all add: prepend_outcome_def)

lemma and_then_fmt_simps [simp]:
  "and_then_fmt (Inl x) f = Inl x"
  "and_then_fmt (Inr s) f = f s"
  by (simp_all add: and_then_fmt_def)

lemma and_then_fmt_prepend:
  assumes "\<And>s. f (prepend c s) = prepend_outcome c (f s)"
  shows "and_then_fmt (prepend_outcome c r) f = prepend_outcome c (and_then_fmt r f)"
  by (cases r) (simp_all add: assms)

lemma shl_prepend: "shl ins t (prepend c s) = prepend c (shl ins t s)"
  by (simp add: shl_def prepend_def)

lemma put_endl_prepend: "put_endl (prepend c s) = prepend c (put_endl s)"
  by (simp add: put_endl_def prepend_def)

lemmas pure_fmt_defs =
  Print_fmt_def PrintLF_fmt_def Print2_fmt_def PrintLF2_fmt_def PrintSplit_fmt_def
  PrintSplitLF_fmt_def PrintEQ_fmt_def PrintEQLF_fmt_def PrintVS_fmt_def PrintVSLF_fmt_def
  PrintElement_fmt_def PrintAB2String_fmt_def Print2String_fmt_def PRINT_fmt_def
  PRINTLF_fmt_def PRINT_FUNCTION_NAME_fmt_def PRINT_FUNCTION_SPLIT_LINE_fmt_def

lemma pure_fmt_prepend:
  "Print_fmt ins t (prepend p s) = prepend p (Print_fmt ins t s)"
  "PrintLF_fmt ins t (prepend p s) = prepend p (PrintLF_fmt ins t s)"
  "Print2_fmt insA insB a b (prepend p s) = prepend p (Print2_fmt insA insB a b s)"
  "PrintLF2_fmt insA insB a b (prepend p s) = prepend p (PrintLF2_fmt insA insB a b s)"
  "PrintSplit_fmt L insA insB a b split (prepend p s)
     = prepend p (PrintSplit_fmt L insA insB a b split s)"
  "PrintSplitLF_fmt L insA insB a b split (prepend p s)
     = prepend p (PrintSplitLF_fmt L insA insB a b split s)"
  "PrintEQ_fmt L insA insB a b (prepend p s) = prepend p (PrintEQ_fmt L insA insB a b s)"
  "PrintEQLF_fmt L insA insB a b (prepend p s) = prepend p (PrintEQLF_fmt L insA insB a b s)"
  "PrintVS_fmt L insA insB a b (prepend p s) = prepend p (PrintVS_fmt L insA insB a b s)"
  "PrintVSLF_fmt L insA insB a b (prepend p s) = prepend p (PrintVSLF_fmt L insA insB a b s)"
  "PrintElement_fmt L ins e first (prepend p s) = prepend p (PrintElement_fmt L ins e first s)"
  "PrintAB2String_fmt L insA toString a b' (prepend p s)
     = prepend p (PrintAB2String_fmt L insA toString a b' s)"
  "Print2String_fmt L toString b' name (prepend p s)
     = prepend p (Print2String_fmt L toString b' name s)"
  "PRINT_fmt L insB name b (prepend p s) = prepend p (PRINT_fmt L insB name b s)"
  "PRINTLF_fmt L insB name b (prepend p s) = prepend p (PRINTLF_fmt L insB name b s)"
  "PRINT_FUNCTION_NAME_fmt L func (prepend p s) = prepend p (PRINT_FUNCTION_NAME_fmt L func s)"
  "PRINT_FUNCTION_SPLIT_LINE_fmt L func (prepend p s)
     = prepend p (PRINT_FUNCTION_SPLIT_LINE_fmt L func s)"
  by (simp_all add: pure_fmt_defs Let_def shl_prepend put_endl_prepend)

lemma PrintRange_loop_fmt_prepend:
  "PrintRange_loop_fmt L ins c bgn en (prepend p s)
     = prepend_outcome p (PrintRange_loop_fmt L ins c bgn en s)"
proof (induction L ins c bgn en s rule: PrintRange_loop_fmt.induct)
  case (1 L ins c bgn en s)
  show ?case
  proof (cases "bgn \<noteq> en \<and> bgn < length c")
    case True
    then show ?thesis
      using "1.IH"
      by (subst PrintRange_loop_fmt.simps, subst (2) PrintRange_loop_fmt.simps)
         (simp add: shl_prepend)
  next
    case False
    then show ?thesis
      by (subst PrintRange_loop_fmt.simps, subst (2) PrintRange_loop_fmt.simps) auto
  qed
qed

lemma PrintRangeToString_loop_fmt_prepend:
  "PrintRangeToString_loop_fmt L f c bgn en (prepend p s)
     = prepend_outcome p (PrintRangeToString_loop_fmt L f c bgn en s)"
proof (induction L f c bgn en s rule: PrintRangeToString_loop_fmt.induct)
  case (1 L f c bgn en s)
  show ?case
  proof (cases "bgn \<noteq> en \<and> bgn < length c \<and> Suc bgn < length c")
    case True
    then show ?thesis
      using "1.IH"
      by (subst PrintRangeToString_loop_fmt.simps, subst (2) PrintRangeToString_loop_fmt.simps)
         (simp add: Let_def shl_prepend)
  next
    case False
    then show ?thesis
      by (subst PrintRangeToString_loop_fmt.simps, subst (2) PrintRangeToString_loop_fmt.simps)
         (auto simp: Let_def)
  qed
qed

lemma PrintRange2String_loop_fmt_prepend:
  "PrintRange2String_loop_fmt L f c bgn en (prepend p s)
     = prepend_outcome p (PrintRange2String_loop_fmt L f c bgn en s)"
proof (induction L f c bgn en s rule: PrintRange2String_loop_fmt.induct)
  case (1 L f c bgn en s)
  show ?case
  proof (cases "bgn \<noteq> en \<and> bgn < length c \<and> Suc bgn < length c")
    case True
    then show ?thesis
      using "1.IH"
      by (subst PrintRange2String_loop_fmt.simps, subst (2) PrintRange2String_loop_fmt.simps)
         (simp add: Let_def shl_prepend)
  next
    case False
    then show ?thesis
      by (subst PrintRange2String_loop_fmt.simps, subst (2) PrintRange2String_loop_fmt.simps)
         (auto simp: Let_def)
  qed
qed

lemma PrintVectorToString_loop_fmt_prepend:
  "PrintVectorToString_loop_fmt L f c (prepend p s)
     = prepend_outcome p (PrintVectorToString_loop_fmt L f c s)"
  by (induction c arbitrary: s) (auto split: option.splits simp: shl_prepend)

lemma PrintVector2String_loop_fmt_prepend:
  "PrintVector2String_loop_fmt L f c (prepend p s)
     = prepend_outcome p (PrintVector2String_loop_fmt L f c s)"
  by (induction c arbitrary: s) (auto split: option.splits simp: shl_prepend)

lemma PrintVectorMapping_loop_fmt_prepend:
  "PrintVectorMapping_loop_fmt L ins v i (prepend p s)
     = prepend p (PrintVectorMapping_loop_fmt L ins v i s)"
proof (induction L ins v i s rule: PrintVectorMapping_loop_fmt.induct)
  case (1 L ins v i s)
  show ?case
  proof (cases "i < length v")
    case True
    then show ?thesis
      using "1.IH"
      by (subst PrintVectorMapping_loop_fmt.simps, subst (2) PrintVectorMapping_loop_fmt.simps)
         (simp add: pure_fmt_prepend)
  next
    case False
    then show ?thesis
      by (subst PrintVectorMapping_loop_fmt.simps, subst (2) PrintVectorMapping_loop_fmt.simps)
         auto
  qed
qed

lemma PrintVectorRange_loop_fmt_prepend:
  "PrintVectorRange_loop_fmt L ins v bgn index en (prepend p s)
     = prepend_outcome p (PrintVectorRange_loop_fmt L ins v bgn index en s)"
proof (induction L ins v bgn index en s rule: PrintVectorRange_loop_fmt.induct)
  case (1 L ins v bgn index en s)
  show ?case
  proof (cases "index \<noteq> en \<and> unat index < length v")
    case True
    then show ?thesis
      using "1.IH"
      by (subst PrintVectorRange_loop_fmt.simps, subst (2) PrintVectorRange_loop_fmt.simps)
         (simp add: pure_fmt_prepend)
  next
    case False
    then show ?thesis
      by (subst PrintVectorRange_loop_fmt.simps, subst (2) PrintVectorRange_loop_fmt.simps)
         auto
  qed
qed

lemma PrintRange_fmt_prepend:
  "PrintRange_fmt L ins c bgn en (prepend p s) = prepend_outcome p (PrintRange_fmt L ins c bgn en s)"
  by (simp add: PrintRange_fmt_def shl_prepend PrintRange_loop_fmt_prepend
      and_then_fmt_prepend put_endl_prepend)

lemma PrintRangeToString_fmt_prepend:
  "PrintRangeToString_fmt L f c bgn en (prepend p s)
     = prepend_outcome p (PrintRangeToString_fmt L f c bgn en s)"
  by (simp add: PrintRangeToString_fmt_def shl_prepend PrintRangeToString_loop_fmt_prepend
      and_then_fmt_prepend)

lemma PrintRange2String_fmt_prepend:
  "PrintRange2String_fmt L f c bgn en (prepend p s)
     = prepend_outcome p (PrintRange2String_fmt L f c bgn en s)"
  by (simp add: PrintRange2String_fmt_def shl_prepend PrintRange2String_loop_fmt_prepend
      and_then_fmt_prepend)

lemma PrintContainer_fmt_prepend:
  "PrintContainer_fmt L ins c name (prepend p s)
     = prepend_outcome p (PrintContainer_fmt L ins c name s)"
  by (simp add: PrintContainer_fmt_def Let_def shl_prepend PrintRange_fmt_prepend)

lemma PrintContainerToString_fmt_prepend:
  "PrintContainerToString_fmt L f c name (prepend p s)
     = prepend_outcome p (PrintContainerToString_fmt L f c name s)"
  by (simp add: PrintContainerToString_fmt_def Let_def shl_prepend put_endl_prepend
      PrintRangeToString_fmt_prepend)

lemma PrintContainer2String_fmt_prepend:
  "PrintContainer2String_fmt L f c name (prepend p s)
     = prepend_outcome p (PrintContainer2String_fmt L f c name s)"
  by (simp add: PrintContainer2String_fmt_def Let_def shl_prepend put_endl_prepend
      PrintRange2String_fmt_prepend)

lemma PrintVectorToString_fmt_prepend:
  "PrintVectorToString_fmt L f c name (prepend p s)
     = prepend_outcome p (PrintVectorToString_fmt L f c name s)"
  by (simp add: PrintVectorToString_fmt_def shl_prepend PrintVectorToString_loop_fmt_prepend
      and_then_fmt_prepend put_endl_prepend)

lemma PrintVector2String_fmt_prepend:
  "PrintVector2String_fmt L f c name (prepend p s)
     = prepend_outcome p (PrintVector2String_fmt L f c name s)"
  by (simp add: PrintVector2String_fmt_def shl_prepend PrintVector2String_loop_fmt_prepend
      and_then_fmt_prepend put_endl_prepend)

lemma PrintVectorMapping_fmt_prepend:
  "PrintVectorMapping_fmt L ins v name (prepend p s)
     = prepend p (PrintVectorMapping_fmt L ins v name s)"
  by (simp add: PrintVectorMapping_fmt_def shl_prepend PrintVectorMapping_loop_fmt_prepend
      put_endl_prepend)

lemma PrintVectorRange_fmt_prepend:
  "PrintVectorRange_fmt L ins v bgn en (prepend p s)
     = prepend_outcome p (PrintVectorRange_fmt L ins v bgn en s)"
  by (simp add: PrintVectorRange_fmt_def shl_prepend PrintVectorRange_loop_fmt_prepend
      and_then_fmt_prepend put_endl_prepend)

lemma doubles_prepend:
  assumes comm: "\<And>p s. F (prepend p s) = prepend p (F s)"
  shows "doubles F s"
proof -
  define s0 where "s0 = \<lparr>content = [], fmt = fmt s\<rparr>"
  define w where "w = content (F s0)"
  have s: "s = prepend (content s) s0"
    by (simp add: s0_def prepend_def)
  have Fs: "F s = prepend (content s) (F s0)"
    using comm [of "content s" s0] s by simp
  have app: "appended s (F s) = w"
    by (simp add: Fs appended_def prepend_def w_def)
  have cont: "content (F s) = content s @ w"
    by (simp add: Fs prepend_def w_def)
  have again: "F (F s) = \<lparr>content = content s @ w @ w, fmt = fmt s\<rparr>" if "fmt (F s) = fmt s"
  proof -
    have f0: "fmt (F s0) = fmt s"
      using that by (simp add: Fs prepend_def)
    have "F s = prepend (content s @ w) s0"
      using f0 by (simp add: Fs prepend_def w_def s0_def)
    then have "F (F s) = prepend (content s @ w) (F s0)"
      using comm [of "content s @ w" s0] by simp
    then show ?thesis
      using f0 by (simp add: prepend_def w_def)
  qed
  show ?thesis
    unfolding doubles_def app using cont again by simp
qed

lemma doubles_or_faults_prepend:
  assumes comm: "\<And>p s. F (prepend p s) = prepend_outcome p (F s)"
  shows "doubles_or_faults F s"
proof (cases "F s")
  case (Inl x)
  then show ?thesis
    by (simp add: doubles_or_faults_def)
next
  case (Inr s1)
  define s0 where "s0 = \<lparr>content = [], fmt = fmt s\<rparr>"
  have s: "s = prepend (content s) s0"
    by (simp add: s0_def prepend_def)
  have Fs: "F s = prepend_outcome (content s) (F s0)"
    using comm [of "content s" s0] s by simp
  then obtain t where t: "F s0 = Inr t" and s1: "s1 = prepend (content s) t"
    using Inr by (cases "F s0") simp_all
  define w where "w = content t"
  have app: "appended s s1 = w"
    by (simp add: s1 appended_def prepend_def w_def)
  have cont: "content s1 = content s @ w"
    by (simp add: s1 prepend_def w_def)
  have again: "F s1 = Inr \<lparr>content = content s @ w @ w, fmt = fmt s\<rparr>" if "fmt s1 = fmt s"
  proof -
    have f0: "fmt t = fmt s"
      using that by (simp add: s1 prepend_def)
    have "s1 = prepend (content s @ w) s0"
      using f0 by (simp add: s1 prepend_def w_def s0_def)
    then have "F s1 = prepend_outcome (content s @ w) (F s0)"
      using comm [of "content s @ w" s0] by simp
    then show ?thesis
      using f0 t by (simp add: prepend_def w_def)
  qed
  show ?thesis
    using cont again by (simp add: doubles_or_faults_def Inr app)
qed

lemmas macro_fmt_defs =
  PRINT_CONTAINER_fmt_def PRINT_CONTAINER_TO_STRING_fmt_def PRINT_CONTAINER_2_STRING_fmt_def
  PRINT_VECTOR_TO_STRING_fmt_def PRINT_VECTOR_2_STRING_fmt_def PRINT_VECTOR_MAPPING_fmt_def

lemma with_content_simps [simp]:
  "with_content s (Inl x) = Inl x"
  "with_content s (Inr out) = Inr (s\<lparr>content := out\<rparr>)"
  by (simp_all add: with_content_def)

lemma shl_plain: "shl (plain ins) t s = s\<lparr>content := content s @ ins t\<rparr>"
  by (simp add: shl_def plain_def)

lemma plain_lib_sel [simp]:
  "ins_chars plain_lib = plain ins_string"
  "ins_size plain_lib = plain dec_nat"
  by (simp_all add: plain_lib_def)

lemma pure_plain:
  "Print_fmt (plain ins) t s = s\<lparr>content := Print ins t (content s)\<rparr>"
  "PrintLF_fmt (plain ins) t s = s\<lparr>content := PrintLF ins t (content s)\<rparr>"
  "Print2_fmt (plain insA) (plain insB) a b s = s\<lparr>content := Print2 insA insB a b (content s)\<rparr>"
  "PrintLF2_fmt (plain insA) (plain insB) a b s
     = s\<lparr>content := PrintLF2 insA insB a b (content s)\<rparr>"
  "PrintSplit_fmt plain_lib (plain insA) (plain insB) a b split s
     = s\<lparr>content := PrintSplit insA insB a b split (content s)\<rparr>"
  "PrintSplitLF_fmt plain_lib (plain insA) (plain insB) a b split s
     = s\<lparr>content := PrintSplitLF insA insB a b split (content s)\<rparr>"
  "PrintEQ_fmt plain_lib (plain insA) (plain insB) a b s
     = s\<lparr>content := PrintEQ insA insB a b (content s)\<rparr>"
  "PrintEQLF_fmt plain_lib (plain insA) (plain insB) a b s
     = s\<lparr>content := PrintEQLF insA insB a b (content s)\<rparr>"
  "PrintVS_fmt plain_lib (plain insA) (plain insB) a b s
     = s\<lparr>content := PrintVS insA insB a b (content s)\<rparr>"
  "PrintVSLF_fmt plain_lib (plain insA) (plain insB) a b s
     = s\<lparr>content := PrintVSLF insA insB a b (content s)\<rparr>"
  "PrintElement_fmt plain_lib (plain insE) e first s
     = s\<lparr>content := PrintElement insE e first (content s)\<rparr>"
  "PrintAB2String_fmt plain_lib (plain insA) toString a obj s
     = s\<lparr>content := PrintAB2String insA toString a obj (content s)\<rparr>"
  "Print2String_fmt plain_lib toString obj name s
     = s\<lparr>content := Print2String toString obj name (content s)\<rparr>"
  "PRINT_fmt plain_lib (plain insB) name b s = s\<lparr>content := PRINT insB name b (content s)\<rparr>"
  "PRINTLF_fmt plain_lib (plain insB) name b s
     = s\<lparr>content := PRINTLF insB name b (content s)\<rparr>"
  "PRINT_FUNCTION_NAME_fmt plain_lib func s
     = s\<lparr>content := PRINT_FUNCTION_NAME func (content s)\<rparr>"
  "PRINT_FUNCTION_SPLIT_LINE_fmt plain_lib func s
     = s\<lparr>content := PRINT_FUNCTION_SPLIT_LINE func (content s)\<rparr>"
  by (simp_all add: pure_fmt_defs pure_defs Let_def shl_plain put_endl_def ins_string_def)

lemma with_content_update [simp]: "with_content (s\<lparr>content := x\<rparr>) r = with_content s r"
  by (cases r) simp_all

lemma and_then_fmt_with_content:
  "and_then_fmt (with_content s r) f = (case r of Inl x \<Rightarrow> Inl x | Inr out \<Rightarrow> f (s\<lparr>content := out\<rparr>))"
  by (cases r) simp_all

lemma with_content_and_then:
  "with_content s (and_then r f) = (case r of Inl x \<Rightarrow> Inl x | Inr out \<Rightarrow> with_content s (f out))"
  by (cases r) simp_all

lemma PrintRange_loop_plain:
  "PrintRange_loop_fmt plain_lib (plain ins) c bgn en s
     = with_content s (PrintRange_loop ins c bgn en (content s))"
proof (induction "plain_lib :: 'a stdlib" "plain ins :: ('b, 'a) inserter" c bgn en s
    rule: PrintRange_loop_fmt.induct)
  case (1 c bgn en s)
  show ?case
  proof (cases "bgn \<noteq> en \<and> bgn < length c")
    case True
    then show ?thesis
      using "1.hyps"
      by (subst PrintRange_loop_fmt.simps, subst PrintRange_loop.simps)
         (simp add: shl_plain ins_string_def)
  next
    case False
    then show ?thesis
      by (subst PrintRange_loop_fmt.simps, subst PrintRange_loop.simps) auto
  qed
qed

lemma PrintRangeToString_loop_plain:
  "PrintRangeToString_loop_fmt plain_lib f c bgn en s
     = with_content s (PrintRangeToString_loop f c bgn en (content s))"
proof (induction "plain_lib :: 'a stdlib" f c bgn en s rule: PrintRangeToString_loop_fmt.induct)
  case (1 f c bgn en s)
  show ?case
  proof (cases "bgn \<noteq> en \<and> bgn < length c \<and> Suc bgn < length c")
    case True
    then show ?thesis
      using "1.hyps"
      by (subst PrintRangeToString_loop_fmt.simps, subst PrintRangeToString_loop.simps)
         (simp add: Let_def shl_plain ins_string_def)
  next
    case False
    then show ?thesis
      by (subst PrintRangeToString_loop_fmt.simps, subst PrintRangeToString_loop.simps)
         (auto simp: Let_def)
  qed
qed

lemma PrintRange2String_loop_plain:
  "PrintRange2String_loop_fmt plain_lib f c bgn en s
     = with_content s (PrintRange2String_loop f c bgn en (content s))"
proof (induction "plain_lib :: 'a stdlib" f c bgn en s rule: PrintRange2String_loop_fmt.induct)
  case (1 f c bgn en s)
  show ?case
  proof (cases "bgn \<noteq> en \<and> bgn < length c \<and> Suc bgn < length c")
    case True
    then show ?thesis
      using "1.hyps"
      by (subst PrintRange2String_loop_fmt.simps, subst PrintRange2String_loop.simps)
         (simp add: Let_def shl_plain ins_string_def)
  next
    case False
    then show ?thesis
      by (subst PrintRange2String_loop_fmt.simps, subst PrintRange2String_loop.simps)
         (auto simp: Let_def)
  qed
qed

lemma PrintVectorToString_loop_plain:
  "PrintVectorToString_loop_fmt plain_lib f c s
     = with_content s (PrintVectorToString_loop f c (content s))"
  by (induction c arbitrary: s) (auto split: option.splits simp: shl_plain ins_string_def)

lemma PrintVector2String_loop_plain:
  "PrintVector2String_loop_fmt plain_lib f c s
     = with_content s (PrintVector2String_loop f c (content s))"
  by (induction c arbitrary: s) (auto split: option.splits simp: shl_plain ins_string_def)

lemma PrintVectorMapping_loop_plain:
  "PrintVectorMapping_loop_fmt plain_lib (plain ins) v i s
     = s\<lparr>content := PrintVectorMapping_loop ins v i (content s)\<rparr>"
proof (induction "plain_lib :: 'a stdlib" "plain ins :: ('b, 'a) inserter" v i s
    rule: PrintVectorMapping_loop_fmt.induct)
  case (1 v i s)
  show ?case
  proof (cases "i < length v")
    case True
    then show ?thesis
      using "1.hyps"
      by (subst PrintVectorMapping_loop_fmt.simps, subst PrintVectorMapping_loop.simps)
         (simp add: pure_plain)
  next
    case False
    then show ?thesis
      by (subst PrintVectorMapping_loop_fmt.simps, subst PrintVectorMapping_loop.simps) auto
  qed
qed

lemma PrintVectorRange_loop_plain:
  "PrintVectorRange_loop_fmt plain_lib (plain ins) v bgn index en s
     = with_content s (PrintVectorRange_loop ins v bgn index en (content s))"
proof (induction "plain_lib :: 'a stdlib" "plain ins :: ('b, 'a) inserter" v bgn index en s
    rule: PrintVectorRange_loop_fmt.induct)
  case (1 v bgn index en s)
  show ?case
  proof (cases "index \<noteq> en \<and> unat index < length v")
    case True
    then show ?thesis
      using "1.hyps"
      by (subst PrintVectorRange_loop_fmt.simps, subst PrintVectorRange_loop.simps)
         (simp add: pure_plain)
  next
    case False
    then show ?thesis
      by (subst PrintVectorRange_loop_fmt.simps, subst PrintVectorRange_loop.simps) auto
  qed
qed

lemma fallible_plain:
  "PrintRange_fmt plain_lib (plain insE) c bgn en s
     = with_content s (PrintRange insE c bgn en (content s))"
  "PrintContainer_fmt plain_lib (plain insE) c name s
     = with_content s (PrintContainer insE c name (content s))"
  "PrintRangeToString_fmt plain_lib ToString c bgn en s
     = with_content s (PrintRangeToString ToString c bgn en (content s))"
  "PrintRange2String_fmt plain_lib toString c bgn en s
     = with_content s (PrintRange2String toString c bgn en (content s))"
  "PrintContainerToString_fmt plain_lib ToString c name s
     = with_content s (PrintContainerToString ToString c name (content s))"
  "PrintContainer2String_fmt plain_lib toString c name s
     = with_content s (PrintContainer2String toString c name (content s))"
  "PrintVectorToString_fmt plain_lib ToString' hs name s
     = with_content s (PrintVectorToString ToString' hs name (content s))"
  "PrintVector2String_fmt plain_lib toString' hs name s
     = with_content s (PrintVector2String toString' hs name (content s))"
  "PrintVectorRange_fmt plain_lib (plain insE) c from to s
     = with_content s (PrintVectorRange insE c from to (content s))"
  by (simp_all add: PrintRange_fmt_def PrintRange_def PrintContainer_fmt_def PrintContainer_def
      PrintRangeToString_fmt_def PrintRangeToString_def PrintContainerToString_fmt_def
      PrintContainerToString_def PrintVectorToString_fmt_def PrintVectorToString_def
      PrintRange2String_fmt_def PrintRange2String_def PrintContainer2String_fmt_def
      PrintContainer2String_def PrintVector2String_fmt_def PrintVector2String_def
      PrintVectorRange_fmt_def PrintVectorRange_def
      PrintRange_loop_plain PrintRangeToString_loop_plain PrintVectorToString_loop_plain
      PrintRange2String_loop_plain PrintVector2String_loop_plain
      PrintVectorRange_loop_plain
      Let_def shl_plain put_endl_def ins_string_def
      and_then_fmt_with_content with_content_and_then split: sum.splits)

lemma PrintVectorMapping_plain:
  "PrintVectorMapping_fmt plain_lib (plain insE) c name s
     = s\<lparr>content := PrintVectorMapping insE c name (content s)\<rparr>"
  by (simp add: PrintVectorMapping_fmt_def PrintVectorMapping_def PrintVectorMapping_loop_plain
      shl_plain put_endl_def ins_string_def)

subsection \<open>The claims\<close>

text \<open>
  C7. In enabled mode \<open>PrintEQ\<close> appends the text of \<open>a\<close>, then \<open>" = "\<close>, then the text of \<open>b\<close>
  and nothing after it, for all values and every sink; \<open>PrintEQLF\<close> appends the same
  text followed by exactly one line feed.
\<close>

theorem PrintEQ_text:
  "PrintEQ insA insB a b out = out @ insA a @ '' = '' @ insB b
   \<and> PrintEQLF insA insB a b out = PrintEQ insA insB a b out @ [LF]"
  by (simp add: PrintEQ_def PrintEQLF_def)

text \<open>
  C1. The claim asks that every helper keeps, in disabled mode, the signature it has in
  enabled mode and does nothing there. The \<^verbatim>\<open>#else\<close> branch of the header does not
  declare \<open>PrintRange2String\<close>: it is the one prototype of the enabled branch without
  a stub, so a call of it does not compile when the flag is off. Every prototype the
  disabled branch does declare is also one of the enabled branch.
\<close>

theorem PrintRange2String_has_no_stub:
  "without_stub = [(''PrintRange2String'', [(''ITERATOR'', None), (''ITERATOR'', None)])]
   \<and> filter (\<lambda>d. \<not> List.member enabled_declarations d) disabled_declarations = []"
  by code_simp

text \<open>
  C2. The claim asks for every element of the range, in order. On the two-element range
  over \<open>["a", "b"]\<close> both rendered-range printers write \<open>{ a }\<close>: the second element is
  skipped by the extra \<^verbatim>\<open>++begin\<close> in the loop body.
\<close>

theorem rendered_range_skips_example:
  "PrintRangeToString ins_string [''a'', ''b''] 0 2 [] = Inr ''{ a }''
   \<and> PrintRange2String ins_string [''a'', ''b''] 0 2 [] = Inr ''{ a }''
   \<and> PrintRangeToString ins_string [''a'', ''b''] 0 2 [] \<noteq> Inr ''{ a b }''
   \<and> PrintRange2String ins_string [''a'', ''b''] 0 2 [] \<noteq> Inr ''{ a b }''"
  by code_simp

text \<open>
  C3. For indices \<open>from \<le> to \<le> v.size()\<close>, \<open>PrintVectorRange\<close> appends \<open>{\<close>, then the
  elements \<open>v[from], \<dots>, v[to - 1]\<close>, the one at \<open>from\<close> as it is and every later one
  after \<open>", "\<close>, then \<open>}\<close> and one line feed. On \<open>[5, 6, 7, 8]\<close> with \<open>1\<close> and \<open>3\<close> the
  output is \<open>{6, 7}\<close> and a line feed.
\<close>

theorem PrintVectorRange_text:
  "(unat bgn \<le> unat en \<and> unat en \<le> length v \<longrightarrow>
      PrintVectorRange ins v bgn en out =
        Inr (out @ ''{''
          @ concat (map (\<lambda>j. (if j = unat bgn then [] else '', '') @ ins (v ! j))
                      [unat bgn..<unat en])
          @ ''}'' @ [LF]))
   \<and> PrintVectorRange dec_int [5, 6, 7, 8] 1 3 [] = Inr (''{6, 7}'' @ [LF])"
proof -
  have "PrintVectorRange dec_int [5, 6, 7, 8] 1 3 [] = Inr (''{6, 7}'' @ [LF])"
    by code_simp
  then show ?thesis
    by (simp add: PrintVectorRange_def PrintVectorRange_loop_closed)
qed

text \<open>The same on the whole of a three-element vector of strings.\<close>

theorem PrintVectorRange_text_witness:
  "unat (0 :: 32 word) \<le> unat (3 :: 32 word) \<and> unat (3 :: 32 word) \<le> length [''x'', ''y'', ''z'']
   \<and> PrintVectorRange ins_string [''x'', ''y'', ''z''] 0 3 [] = Inr (''{x, y, z}'' @ [LF])"
proof -
  have h: "unat (0 :: 32 word) \<le> unat (3 :: 32 word) \<and> unat (3 :: 32 word) \<le> length [''x'', ''y'', ''z'']"
    by simp
  have u: "[0..<3] = [0, Suc 0, Suc (Suc 0)]"
    by (simp add: upt_rec)
  have "PrintVectorRange ins_string [''x'', ''y'', ''z''] 0 3 [] = Inr (''{x, y, z}'' @ [LF])"
    using PrintVectorRange_text [of 0 3 "[''x'', ''y'', ''z'']" ins_string "[]"] h
    by (simp add: u ins_string_def)
  with h show ?thesis
    by simp
qed

text \<open>
  C4, as the code has it. \<open>PrintVectorMapping\<close> writes the label and a line feed before the
  opening brace, also when the label is empty: on \<open>[10, 20]\<close> without a label it appends
  a line feed, \<open>{\<close>, a line feed, the two tab-indented lines \<open>0 -> 10\<close> and \<open>1 -> 20\<close>,
  then \<open>}\<close> and a line feed.
\<close>

theorem PrintVectorMapping_example:
  "PrintVectorMapping dec_int [10, 20] [] out =
     out @ [LF] @ ''{'' @ [LF, TAB] @ ''0 -> 10'' @ [LF, TAB] @ ''1 -> 20'' @ [LF] @ ''}'' @ [LF]"
proof -
  have "PrintVectorMapping dec_int [10, 20] [] [] =
     [LF] @ ''{'' @ [LF, TAB] @ ''0 -> 10'' @ [LF, TAB] @ ''1 -> 20'' @ [LF] @ ''}'' @ [LF]"
    by code_simp
  then show ?thesis
    using PrintVectorMapping_prefix [of dec_int "[10, 20]" "[]" out "[]"] by simp
qed

text \<open>C4 as stated, with the opening brace as the first character, does not hold.\<close>

theorem PrintVectorMapping_example_counterexample:
  "PrintVectorMapping dec_int [10, 20] [] [] \<noteq>
     ''{'' @ [LF, TAB] @ ''0 -> 10'' @ [LF, TAB] @ ''1 -> 20'' @ [LF] @ ''}'' @ [LF]"
  by code_simp

text \<open>
  C6, as the code has it. Both kinds of range printer write \<open>"{ "\<close> before the loop and
  \<open>"}"\<close> after it, so on an empty range (\<open>begin == end\<close>) \<open>PrintRange\<close> appends \<open>{ }\<close> and a
  line feed, and the two rendered-range printers append \<open>{ }\<close>, with the inner space
  and without a line feed.
\<close>

theorem empty_range_braces:
  "PrintRange ins c p p out = Inr (out @ ''{ }'' @ [LF])
   \<and> PrintRangeToString f c p p out = Inr (out @ ''{ }'')
   \<and> PrintRange2String g c p p out = Inr (out @ ''{ }'')"
  by (simp add: PrintRange_def PrintRangeToString_def PrintRange2String_def
      PrintRange_loop.simps [of _ _ p p] PrintRangeToString_loop.simps [of _ _ p p]
      PrintRange2String_loop.simps [of _ _ p p])

text \<open>C6 as stated, with \<open>{}\<close> for the rendered variant, does not hold.\<close>

theorem rendered_empty_range_counterexample:
  "PrintRangeToString ins_string [] 0 0 [] \<noteq> Inr ''{}''"
  by code_simp

text \<open>
  C9. The rendered-range printers advance the cursor twice in every iteration. For a
  range \<open>[begin, end)\<close> inside the container: when its length is even, \<open>2k\<close>, they return
  after writing the \<open>k\<close> elements at the positions \<open>begin, begin + 2, \<dots>, end - 2\<close>; when
  its length is odd, the cursor never equals \<open>end\<close>, runs on to the end of the
  container and the call ends in undefined behaviour there (a read through the
  past-the-end cursor, or an advance of it). So the call returns exactly when the length
  is even.
\<close>

theorem rendered_range_every_other:
  assumes "bgn \<le> en" and "en \<le> length c"
  shows "PrintRangeToString f c bgn en out =
           (if even (en - bgn)
            then Inr (out @ ''{ ''
                   @ concat (map (\<lambda>i. f (c ! (bgn + 2 * i)) @ '' '') [0..<(en - bgn) div 2])
                   @ ''}'')
            else Inl (if even (length c - bgn) then Deref_Past_End (length c)
                      else Increment_Past_End (length c)))
       \<and> PrintRange2String g c bgn en out =
           (if even (en - bgn)
            then Inr (out @ ''{ ''
                   @ concat (map (\<lambda>i. g (c ! (bgn + 2 * i)) @ '' '') [0..<(en - bgn) div 2])
                   @ ''}'')
            else Inl (if even (length c - bgn) then Deref_Past_End (length c)
                      else Increment_Past_End (length c)))"
proof (cases "even (en - bgn)")
  case True
  then obtain k where k: "en - bgn = 2 * k"
    by (rule evenE)
  with assms have en: "en = bgn + 2 * k"
    by simp
  have le: "bgn + 2 * k \<le> length c"
    using assms en by simp
  show ?thesis
    unfolding en
    by (simp add: PrintRangeToString_def PrintRange2String_def
        PrintRangeToString_loop_even [OF le] PrintRange2String_loop_even [OF le])
next
  case False
  have b: "bgn \<le> length c"
    using assms by simp
  have skip: "\<forall>i. bgn + 2 * i \<noteq> en"
    using odd_never_met [OF assms(1) False] .
  show ?thesis
    using False
    by (simp add: PrintRangeToString_def PrintRange2String_def
        PrintRangeToString_loop_skips [OF b skip] PrintRange2String_loop_skips [OF b skip])
qed

text \<open>An even range of four elements and an odd range of three.\<close>

theorem rendered_range_every_other_witness:
  "(0::nat) \<le> 4 \<and> 4 \<le> length [''a'', ''b'', ''c'', ''d'']
   \<and> PrintRangeToString ins_string [''a'', ''b'', ''c'', ''d''] 0 4 [] = Inr ''{ a c }''
   \<and> (0::nat) \<le> 3 \<and> 3 \<le> length [''a'', ''b'', ''c'']
   \<and> PrintRange2String ins_string [''a'', ''b'', ''c''] 0 3 [] = Inl (Increment_Past_End 3)"
proof -
  have h1: "(0::nat) \<le> 4" and h2: "4 \<le> length [''a'', ''b'', ''c'', ''d'']"
    by simp_all
  have h3: "(0::nat) \<le> 3" and h4: "3 \<le> length [''a'', ''b'', ''c'']"
    by simp_all
  have u: "[0..<2] = [0, Suc 0]"
    by (simp add: upt_rec)
  show ?thesis
    using rendered_range_every_other [OF h1 h2, of ins_string "[]" ins_string]
      rendered_range_every_other [OF h3 h4, of ins_string "[]" ins_string]
    by (simp add: u ins_string_def)
qed

text \<open>
  C5, as the code has it. With the empty label, \<open>PrintContainer\<close>,
  \<open>PrintContainerToString\<close>, \<open>PrintContainer2String\<close> and \<open>Print2String\<close> write nothing
  for the label: the output starts at \<open>size = \<close>, or at the rendering. \<open>PrintVectorToString\<close>,
  \<open>PrintVector2String\<close> and \<open>PrintVectorMapping\<close> do not test the label and write its
  punctuation all the same: the output starts with \<open>" = {"\<close>, or with a line feed before
  the opening brace.
\<close>

theorem empty_label:
  "PrintContainer ins c [] out =
     PrintRange ins c 0 (length c) (out @ ''size = '' @ dec_nat (length c) @ '' '')
   \<and> PrintContainerToString ToString c [] out =
     PrintRangeToString ToString c 0 (length c) (out @ ''size = '' @ dec_nat (length c) @ [LF])
   \<and> PrintContainer2String toString c [] out =
     PrintRange2String toString c 0 (length c) (out @ ''size = '' @ dec_nat (length c) @ [LF])
   \<and> Print2String toString t [] out = out @ toString t @ [LF]
   \<and> PrintVectorToString ToString' (map Some objs) [] out =
     Inr (out @ '' = {'' @ concat (map (\<lambda>x. '' '' @ ToString' x) objs) @ '' }'' @ [LF])
   \<and> PrintVector2String toString' (map Some objs) [] out =
     Inr (out @ '' = {'' @ concat (map (\<lambda>x. '' '' @ toString' x) objs) @ '' }'' @ [LF])
   \<and> PrintVectorMapping ins c [] out =
     out @ [LF] @ ''{'' @ [LF]
       @ concat (map (\<lambda>j. [TAB] @ dec_nat j @ '' -> '' @ ins (c ! j) @ [LF]) [0..<length c])
       @ ''}'' @ [LF]"
  by (simp add: PrintContainer_def PrintContainerToString_def PrintContainer2String_def
      Print2String_def PrintVectorToString_full PrintVector2String_full PrintVectorMapping_full)

text \<open>
  C5 as stated does not hold for the vector printers: with the empty label and one
  element \<open>a\<close> the output is \<open>" = { a }"\<close> and not \<open>"{ a }"\<close>, and the mapping starts with
  a line feed.
\<close>

theorem empty_label_counterexample:
  "PrintVectorToString ins_string [Some ''a''] [] [] = Inr ('' = { a }'' @ [LF])
   \<and> PrintVectorToString ins_string [Some ''a''] [] [] \<noteq> Inr (''{ a }'' @ [LF])
   \<and> PrintVector2String ins_string [Some ''a''] [] [] = Inr ('' = { a }'' @ [LF])
   \<and> PrintVectorMapping ins_string [''a''] [] [] = [LF] @ ''{'' @ [LF, TAB] @ ''0 -> a'' @ [LF] @ ''}'' @ [LF]
   \<and> PrintVectorMapping ins_string [''a''] [] [] \<noteq> ''{'' @ [LF, TAB] @ ''0 -> a'' @ [LF] @ ''}'' @ [LF]"
  by code_simp

text \<open>
  C8, as the code has it. No helper saves or restores the formatting state of the stream.
  If a call leaves the state as it found it, the call has written at the end of the prior
  content, and the same call made again writes the same characters once more: the two
  calls append the single-call output twice. For a helper that can meet undefined
  behaviour this is said of a first call that returns.
\<close>

theorem twice_doubles_when_restored:
  "doubles (Print_fmt ins t) s
   \<and> doubles (PrintLF_fmt ins t) s
   \<and> doubles (Print2_fmt insA insB a b) s
   \<and> doubles (PrintLF2_fmt insA insB a b) s
   \<and> doubles (PrintSplit_fmt L insA insB a b split) s
   \<and> doubles (PrintSplitLF_fmt L insA insB a b split) s
   \<and> doubles (PrintEQ_fmt L insA insB a b) s
   \<and> doubles (PrintEQLF_fmt L insA insB a b) s
   \<and> doubles (PrintVS_fmt L insA insB a b) s
   \<and> doubles (PrintVSLF_fmt L insA insB a b) s
   \<and> doubles (PrintElement_fmt L insE e first) s
   \<and> doubles_or_faults (PrintRange_fmt L insE c bgn en) s
   \<and> doubles_or_faults (PrintContainer_fmt L insE c name) s
   \<and> doubles (PrintAB2String_fmt L insA toString a obj) s
   \<and> doubles (Print2String_fmt L toString obj name) s
   \<and> doubles_or_faults (PrintRangeToString_fmt L ToString c bgn en) s
   \<and> doubles_or_faults (PrintRange2String_fmt L toString c bgn en) s
   \<and> doubles_or_faults (PrintContainerToString_fmt L ToString c name) s
   \<and> doubles_or_faults (PrintContainer2String_fmt L toString c name) s
   \<and> doubles_or_faults (PrintVectorToString_fmt L ToString' hs name) s
   \<and> doubles_or_faults (PrintVector2String_fmt L toString' hs name) s
   \<and> doubles (PrintVectorMapping_fmt L insE c name) s
   \<and> doubles_or_faults (PrintVectorRange_fmt L insE c from to) s
   \<and> doubles (PRINT_fmt L insB name b) s
   \<and> doubles (PRINTLF_fmt L insB name b) s
   \<and> doubles (PRINT_FUNCTION_NAME_fmt L func) s
   \<and> doubles (PRINT_FUNCTION_SPLIT_LINE_fmt L func) s
   \<and> doubles_or_faults (PRINT_CONTAINER_fmt L insE name c) s
   \<and> doubles_or_faults (PRINT_CONTAINER_TO_STRING_fmt L ToString name c) s
   \<and> doubles_or_faults (PRINT_CONTAINER_2_STRING_fmt L toString name c) s
   \<and> doubles_or_faults (PRINT_VECTOR_TO_STRING_fmt L ToString' name hs) s
   \<and> doubles_or_faults (PRINT_VECTOR_2_STRING_fmt L toString' name hs) s
   \<and> doubles (PRINT_VECTOR_MAPPING_fmt L insE name c) s"
  unfolding macro_fmt_defs
  by (intro conjI;
      ((rule doubles_prepend, rule pure_fmt_prepend PrintVectorMapping_fmt_prepend)
      | (rule doubles_or_faults_prepend,
         rule PrintRange_fmt_prepend PrintContainer_fmt_prepend PrintRangeToString_fmt_prepend
           PrintRange2String_fmt_prepend PrintContainerToString_fmt_prepend
           PrintContainer2String_fmt_prepend PrintVectorToString_fmt_prepend
           PrintVector2String_fmt_prepend PrintVectorRange_fmt_prepend)))

text \<open>
  \<open>PrintLF(std::hex, 255)\<close> on a stream already in base 16, and \<open>PrintRange\<close> over
  \<open>[10, 11]\<close> on the same stream.
\<close>

theorem twice_doubles_when_restored_witness:
  "fmt (PrintLF2_fmt ins_manipulator ins_int_base std_hex 255 \<lparr>content = ''x'', fmt = Hex\<rparr>) = Hex
   \<and> PrintLF2_fmt ins_manipulator ins_int_base std_hex 255
        (PrintLF2_fmt ins_manipulator ins_int_base std_hex 255 \<lparr>content = ''x'', fmt = Hex\<rparr>)
     = \<lparr>content = ''x'' @ (''ff'' @ [LF]) @ (''ff'' @ [LF]), fmt = Hex\<rparr>
   \<and> PrintRange_fmt base_lib ins_int_base [10, 11] 0 2 \<lparr>content = ''x'', fmt = Hex\<rparr>
     = Inr \<lparr>content = ''x'' @ (''{ a b }'' @ [LF]), fmt = Hex\<rparr>
   \<and> PrintRange_fmt base_lib ins_int_base [10, 11] 0 2
        \<lparr>content = ''x'' @ (''{ a b }'' @ [LF]), fmt = Hex\<rparr>
     = Inr \<lparr>content = ''x'' @ (''{ a b }'' @ [LF]) @ (''{ a b }'' @ [LF]), fmt = Hex\<rparr>"
proof -
  let ?s = "\<lparr>content = ''x'', fmt = Hex\<rparr>"
  have one: "PrintLF2_fmt ins_manipulator ins_int_base std_hex 255 ?s
               = \<lparr>content = ''x'' @ (''ff'' @ [LF]), fmt = Hex\<rparr>"
    by code_simp
  have range: "PrintRange_fmt base_lib ins_int_base [10, 11] 0 2 ?s
               = Inr \<lparr>content = ''x'' @ (''{ a b }'' @ [LF]), fmt = Hex\<rparr>"
    by code_simp
  note all = twice_doubles_when_restored
      [where insA = ins_manipulator and insB = ins_int_base and a = std_hex and b = 255
         and s = ?s and L = base_lib and insE = ins_int_base and c = "[10, 11]"
         and bgn = 0 and en = 2]
  have d: "doubles (PrintLF2_fmt ins_manipulator ins_int_base std_hex 255) ?s"
    by (rule all [THEN conjunct2, THEN conjunct2, THEN conjunct2, THEN conjunct1])
  have f: "doubles_or_faults (PrintRange_fmt base_lib ins_int_base [10, 11] 0 2) ?s"
    by (rule all
      [THEN conjunct2, THEN conjunct2, THEN conjunct2, THEN conjunct2, THEN conjunct2,
       THEN conjunct2, THEN conjunct2, THEN conjunct2, THEN conjunct2, THEN conjunct2,
       THEN conjunct2,
       THEN conjunct1])
  from d one have two: "PrintLF2_fmt ins_manipulator ins_int_base std_hex 255
        (PrintLF2_fmt ins_manipulator ins_int_base std_hex 255 ?s)
     = \<lparr>content = ''x'' @ (''ff'' @ [LF]) @ (''ff'' @ [LF]), fmt = Hex\<rparr>"
    by (simp add: doubles_def appended_def)
  from f range have again: "PrintRange_fmt base_lib ins_int_base [10, 11] 0 2
        \<lparr>content = ''x'' @ (''{ a b }'' @ [LF]), fmt = Hex\<rparr>
     = Inr \<lparr>content = ''x'' @ (''{ a b }'' @ [LF]) @ (''{ a b }'' @ [LF]), fmt = Hex\<rparr>"
    by (simp add: doubles_or_faults_def appended_def)
  show ?thesis
    using one two range again by simp
qed

text \<open>
  C8 as stated, for every argument tuple, does not hold. \<open>PrintLF(255, std::hex)\<close> on a
  stream in its default state writes \<open>255\<close> and a line feed and leaves the stream in
  base 16; the same call again writes \<open>ff\<close> and a line feed, so the two calls do not
  write the single-call output twice.
\<close>

theorem hex_carried_over_counterexample:
  "PrintLF2_fmt ins_int_base ins_manipulator 255 std_hex \<lparr>content = [], fmt = Dec\<rparr>
     = \<lparr>content = ''255'' @ [LF], fmt = Hex\<rparr>
   \<and> PrintLF2_fmt ins_int_base ins_manipulator 255 std_hex
       (PrintLF2_fmt ins_int_base ins_manipulator 255 std_hex \<lparr>content = [], fmt = Dec\<rparr>)
     = \<lparr>content = ''255'' @ [LF] @ ''ff'' @ [LF], fmt = Hex\<rparr>
   \<and> content (PrintLF2_fmt ins_int_base ins_manipulator 255 std_hex
       (PrintLF2_fmt ins_int_base ins_manipulator 255 std_hex \<lparr>content = [], fmt = Dec\<rparr>))
     \<noteq> ''255'' @ [LF] @ ''255'' @ [LF]"
  by code_simp


end
